theory Spec2Isabelle
  imports Main "HOL-Library.Multiset" "HOL-Library.Sublist" "HOL-Library.Word"
begin

section \<open>JavaScript values and the operators the front end applies to them\<close>

text \<open>
  The front end handles values that come out of parsed JSON bodies, so their shape is
  not fixed by any type: a field may be missing, null, or of another kind than expected.
  \<open>jsval\<close> is the value universe. \<open>Undefined\<close> is what reading a missing property
  gives. \<open>Num s\<close> is the number that \<open>String\<close> prints as \<open>s\<close>, its canonical decimal
  form: 3 is \<open>Num ''3''\<close>, one half is \<open>Num ''0.5''\<close>, ten to the 21 is \<open>Num ''1e+21''\<close>,
  and both zeros are \<open>Num ''0''\<close>. Two numbers are strictly equal exactly when their
  forms are equal. \<open>Obj\<close> lists the own properties of a parsed object, keys distinct.
  \<open>Inherited k\<close> is the member \<open>k\<close> that every object literal inherits from
  \<open>Object.prototype\<close> (a function, or the prototype object itself for \<open>__proto__\<close>).
\<close>

datatype jsval =
    Undefined
  | Null
  | Bool bool
  | Num string
  | Str string
  | Arr "jsval list"
  | Obj "(string \<times> jsval) list"
  | Inherited string

text \<open>
  Exceptions. \<open>Error m\<close> is \<open>new Error(m)\<close> with message \<open>m\<close>. \<open>TypeError m\<close> is
  raised by the engine when a property of \<open>null\<close>/\<open>undefined\<close> is read or a
  non-function is called; \<open>m\<close> describes the failed access (engines word their
  messages differently, and no result below depends on the wording).
\<close>

datatype exn = Error string | TypeError string

fun message_of :: "exn \<Rightarrow> string" where
  "message_of (Error m) = m"
| "message_of (TypeError m) = m"

fun nullish :: "jsval \<Rightarrow> bool" where
  "nullish Undefined = True"
| "nullish Null = True"
| "nullish _ = False"

text \<open>
  ToBoolean: the falsy values are undefined, null, false, the zeros, NaN and the empty
  string.
\<close>

fun truthy :: "jsval \<Rightarrow> bool" where
  "truthy Undefined = False"
| "truthy Null = False"
| "truthy (Bool b) = b"
| "truthy (Num s) = (s \<noteq> ''0'' \<and> s \<noteq> ''NaN'')"
| "truthy (Str s) = (s \<noteq> [])"
| "truthy _ = True"

text \<open>\<open>a || b\<close>\<close>

definition or_js :: "jsval \<Rightarrow> jsval \<Rightarrow> jsval" where
  "or_js a b = (if truthy a then a else b)"

text \<open>
  The decimal digits of a natural number: the canonical form of a count (the length of
  an array or a string, an HTTP status).
\<close>

fun decimal :: "nat \<Rightarrow> string" where
  "decimal n =
     (if n < 10 then [''0123456789'' ! n]
      else decimal (n div 10) @ [''0123456789'' ! (n mod 10)])"

declare decimal.simps [simp del]

text \<open>
  \<open>member_js v k\<close> is \<open>v.k\<close> for a value \<open>v\<close> that is neither null nor undefined and
  a data-field name \<open>k\<close> written in the program text (\<open>result\<close>, \<open>status\<close>, \<open>type\<close>,
  \<open>length\<close>, ...; none of them is an inherited method name or an array index).
\<close>

fun member_js :: "jsval \<Rightarrow> string \<Rightarrow> jsval" where
  "member_js (Obj kvs) k = (case map_of kvs k of Some v \<Rightarrow> v | None \<Rightarrow> Undefined)"
| "member_js (Arr xs) k = (if k = ''length'' then Num (decimal (length xs)) else Undefined)"
| "member_js (Str s) k = (if k = ''length'' then Num (decimal (length s)) else Undefined)"
| "member_js _ k = Undefined"

text \<open>\<open>v.k\<close>: throws on null and undefined.\<close>

definition field :: "jsval \<Rightarrow> string \<Rightarrow> exn + jsval" where
  "field v k =
     (if nullish v
      then Inl (TypeError (''Cannot read properties of ''
                  @ (if v = Null then ''null'' else ''undefined'')
                  @ '' (reading '' @ [CHR 0x27] @ k @ [CHR 0x27] @ '')''))
      else Inr (member_js v k))"

text \<open>\<open>v?.k\<close>: undefined on null and undefined, never throws.\<close>

definition optfield :: "jsval \<Rightarrow> string \<Rightarrow> jsval" where
  "optfield v k = (if nullish v then Undefined else member_js v k)"

text \<open>
  \<open>Array.prototype.some\<close> over the elements: stops at the first element whose callback
  result is truthy; an exception of the callback ends the scan.
\<close>

fun array_some :: "(jsval \<Rightarrow> exn + jsval) \<Rightarrow> jsval list \<Rightarrow> exn + bool" where
  "array_some cb [] = Inr False"
| "array_some cb (x # xs) =
     (case cb x of
        Inl e \<Rightarrow> Inl e
      | Inr v \<Rightarrow> if truthy v then Inr True else array_some cb xs)"

text \<open>
  \<open>v.some(cb)\<close> for any value: only arrays have the method; a parsed JSON value of
  another kind has no callable \<open>some\<close>.
\<close>

fun some_js :: "jsval \<Rightarrow> (jsval \<Rightarrow> exn + jsval) \<Rightarrow> exn + bool" where
  "some_js (Arr xs) cb = array_some cb xs"
| "some_js Undefined cb = Inl (TypeError ''Cannot read properties of undefined (reading 'some')'')"
| "some_js Null cb = Inl (TypeError ''Cannot read properties of null (reading 'some')'')"
| "some_js _ cb = Inl (TypeError ''some is not a function'')"

text \<open>\<open>v?.some(cb)\<close>: undefined when \<open>v\<close> is null or undefined.\<close>

definition optsome :: "jsval \<Rightarrow> (jsval \<Rightarrow> exn + jsval) \<Rightarrow> exn + jsval" where
  "optsome v cb =
     (if nullish v then Inr Undefined
      else case some_js v cb of Inl e \<Rightarrow> Inl e | Inr b \<Rightarrow> Inr (Bool b))"

section \<open>Messages and the status badge (\<open>App.js\<close>, \<open>MessageBubbleComponent\<close>)\<close>

text \<open>
  A message object as \<open>App.js\<close> builds it. A field the object literal does not set is
  \<open>Undefined\<close>. \<open>timestamp\<close> is the ISO string of the creation instant.
\<close>

record message =
  id_m :: int
  type :: string
  content :: jsval
  timestamp :: string
  components :: jsval
  toolResults :: jsval

text \<open>
  \<open>getMessageStatus\<close>: both scans run before the result is chosen, the error scan
  first. The warning scan reads \<open>result.result?.result?.issues\<close>.
\<close>

definition getMessageStatus :: "message \<Rightarrow> exn + jsval" where
  "getMessageStatus message =
     (if truthy (toolResults message) then
        (case some_js (toolResults message)
                (\<lambda>result. case field result ''result'' of
                     Inl e \<Rightarrow> Inl e
                   | Inr r \<Rightarrow> Inr (Bool (optfield r ''status'' = Str ''error''))) of
           Inl e \<Rightarrow> Inl e
         | Inr hasErrors \<Rightarrow>
            (case some_js (toolResults message)
                    (\<lambda>result. case field result ''result'' of
                         Inl e \<Rightarrow> Inl e
                       | Inr r \<Rightarrow>
                           optsome (optfield (optfield r ''result'') ''issues'')
                             (\<lambda>issue. case field issue ''severity'' of
                                  Inl e \<Rightarrow> Inl e
                                | Inr s \<Rightarrow> Inr (Bool (s = Str ''warning'')))) of
               Inl e \<Rightarrow> Inl e
             | Inr hasWarnings \<Rightarrow>
                 if hasErrors then Inr (Str ''error'')
                 else if hasWarnings then Inr (Str ''warning'')
                 else Inr (Str ''success'')))
      else Inr Null)"

text \<open>The badge is rendered by \<open>messageStatus && (...)\<close>: exactly when the status is truthy.\<close>

definition badge_shown :: "message \<Rightarrow> bool" where
  "badge_shown message =
     (case getMessageStatus message of Inl e \<Rightarrow> False | Inr s \<Rightarrow> truthy s)"


section \<open>Conversion to strings\<close>

fun join :: "string \<Rightarrow> string list \<Rightarrow> string" where
  "join sep [] = []"
| "join sep [x] = x"
| "join sep (x # y # ys) = x @ sep @ join sep (y # ys)"

text \<open>The results of a list of computations, or the first exception among them.\<close>

fun sequence :: "(exn + 'a) list \<Rightarrow> exn + 'a list" where
  "sequence [] = Inr []"
| "sequence (x # xs) =
     (case x of
        Inl e \<Rightarrow> Inl e
      | Inr y \<Rightarrow> (case sequence xs of Inl e \<Rightarrow> Inl e | Inr ys \<Rightarrow> Inr (y # ys)))"

text \<open>
  \<open>String(v)\<close>: the conversion behind \<open>new Error(v)\<close>, a template literal and a
  computed property key. A number prints in its canonical form. An array joins the
  conversions of its elements with commas, null and undefined as empty strings, and a
  throw of an element is a throw of the array. A parsed object prints as
  \<open>[object Object]\<close> through the inherited \<open>toString\<close>; when it owns a \<open>toString\<close>
  entry, that entry hides the inherited method and is not callable, the inherited
  \<open>valueOf\<close> gives back the object (an own one is not callable either), and the
  conversion throws. An inherited function prints as V8 prints a native function.
\<close>

fun to_string :: "jsval \<Rightarrow> exn + string" where
  "to_string Undefined = Inr ''undefined''"
| "to_string Null = Inr ''null''"
| "to_string (Bool b) = Inr (if b then ''true'' else ''false'')"
| "to_string (Num s) = Inr s"
| "to_string (Str s) = Inr s"
| "to_string (Arr xs) =
     (case sequence (map (\<lambda>x. if nullish x then Inr [] else to_string x) xs) of
        Inl e \<Rightarrow> Inl e
      | Inr ss \<Rightarrow> Inr (join '','' ss))"
| "to_string (Obj kvs) =
     (if ''toString'' \<in> fst ` set kvs
      then Inl (TypeError ''Cannot convert object to primitive value'')
      else Inr ''[object Object]'')"
| "to_string (Inherited k) =
     Inr (if k = ''__proto__'' then ''[object Object]''
          else ''function '' @ (if k = ''constructor'' then ''Object'' else k)
                 @ ''() { [native code] }'')"

text \<open>
  \<open>throw new Error(v)\<close>: what is thrown. The message is \<open>String(v)\<close>; when that
  conversion throws, its exception is the one thrown.
\<close>

definition throw_new_Error :: "jsval \<Rightarrow> exn" where
  "throw_new_Error v = (case to_string v of Inl e \<Rightarrow> e | Inr m \<Rightarrow> Error m)"

section \<open>The gateway (\<open>ApiServiceClass\<close>)\<close>

text \<open>
  What axios hands to the interceptors. A response carries the HTTP status (the
  \<open>unsigned short\<close> of \<open>XMLHttpRequest\<close>) and the parsed body. An axios error has \<open>response\<close> when the server answered with a status that axios
  rejects (outside 200..299), \<open>request\<close> when the request was sent, and a message.
\<close>

record axios_response =
  status :: "16 word"
  data :: jsval

record axios_error =
  response :: "axios_response option"
  request :: bool
  message :: string

datatype axios_outcome = Fulfilled axios_response | Rejected axios_error

text \<open>The instance is created with \<open>timeout: 30000\<close> (milliseconds).\<close>

definition timeout :: nat where
  "timeout = 30000"

text \<open>
  The response interceptor's error handler. It always throws: a plain \<open>Error\<close> whose
  message depends on the branch, or the exception of converting a \<open>detail\<close> or
  \<open>message\<close> that is not a string.
\<close>

definition response_rejected :: "axios_error \<Rightarrow> exn" where
  "response_rejected err =
     (case response err of
        Some r \<Rightarrow>
          throw_new_Error
            (or_js (optfield (data r) ''detail'')
              (or_js (optfield (data r) ''message'')
                (Str (''Server error: '' @ decimal (unat (status r))))))
      | None \<Rightarrow>
          if request err
          then throw_new_Error
                 (Str ''Cannot connect to server. Please make sure the backend is running.'')
          else throw_new_Error
                 (or_js (Str (message err)) (Str ''An unexpected error occurred'')))"

text \<open>\<open>await this.api.get(...)\<close> / \<open>await this.api.post(...)\<close>, settled through the interceptors.\<close>

definition api :: "axios_outcome \<Rightarrow> exn + axios_response" where
  "api outcome =
     (case outcome of Fulfilled r \<Rightarrow> Inr r | Rejected err \<Rightarrow> Inl (response_rejected err))"

text \<open>The requests the five methods issue: method, path and the data argument.\<close>

datatype request = GET string | POST string jsval

definition healthCheck_request :: request where
  "healthCheck_request = GET ''/health''"

definition uploadData_request :: "string \<Rightarrow> request" where
  "uploadData_request filePath = POST ''/upload-data'' (Obj [(''file_path'', Str filePath)])"

definition sendMessage_request :: "jsval \<Rightarrow> request" where
  "sendMessage_request msg = POST ''/chat'' (Obj [(''message'', msg)])"

definition getAvailableTools_request :: request where
  "getAvailableTools_request = GET ''/tools''"

text \<open>\<open>executeTool(toolName, params = {})\<close>: an omitted or undefined \<open>params\<close> is \<open>{}\<close>.\<close>

definition executeTool_request :: "string \<Rightarrow> jsval \<Rightarrow> request" where
  "executeTool_request toolName params =
     POST (''/tool/'' @ toolName)
       (Obj [(''params'', if params = Undefined then Obj [] else params)])"

text \<open>Each method awaits the call and returns \<open>response.data\<close>.\<close>

definition healthCheck :: "axios_outcome \<Rightarrow> exn + jsval" where
  "healthCheck outcome = (case api outcome of Inl e \<Rightarrow> Inl e | Inr r \<Rightarrow> Inr (data r))"

definition uploadData :: "axios_outcome \<Rightarrow> exn + jsval" where
  "uploadData outcome = (case api outcome of Inl e \<Rightarrow> Inl e | Inr r \<Rightarrow> Inr (data r))"

definition sendMessage :: "axios_outcome \<Rightarrow> exn + jsval" where
  "sendMessage outcome = (case api outcome of Inl e \<Rightarrow> Inl e | Inr r \<Rightarrow> Inr (data r))"

definition getAvailableTools :: "axios_outcome \<Rightarrow> exn + jsval" where
  "getAvailableTools outcome = (case api outcome of Inl e \<Rightarrow> Inl e | Inr r \<Rightarrow> Inr (data r))"

definition executeTool :: "axios_outcome \<Rightarrow> exn + jsval" where
  "executeTool outcome = (case api outcome of Inl e \<Rightarrow> Inl e | Inr r \<Rightarrow> Inr (data r))"


section \<open>The application state and its handlers (\<open>App.js\<close>)\<close>

datatype status = idle | connecting | connected | loading | processing | error | disconnected

text \<open>
  The four \<open>useState\<close> cells of \<open>App\<close>, and two logs of what the handlers do to the
  outside: every value passed to \<open>setAppStatus\<close>, and every request handed to the
  gateway, oldest first.
\<close>

record app =
  dataPath :: string
  isDataLoaded :: bool
  appStatus :: status
  messages :: "message list"
  statusLog :: "status list"
  requests :: "request list"

text \<open>
  One reading of the clock: \<open>Date.now()\<close> (milliseconds) and
  \<open>new Date().toISOString()\<close>.
\<close>

record clock =
  now :: int
  iso :: string

definition setAppStatus :: "status \<Rightarrow> app \<Rightarrow> app" where
  "setAppStatus s st = st\<lparr>appStatus := s, statusLog := statusLog st @ [s]\<rparr>"

text \<open>\<open>setMessages(prev => [...prev, m])\<close>\<close>

definition append_message :: "message \<Rightarrow> app \<Rightarrow> app" where
  "append_message m st = st\<lparr>messages := messages st @ [m]\<rparr>"

definition issue :: "request \<Rightarrow> app \<Rightarrow> app" where
  "issue r st = st\<lparr>requests := requests st @ [r]\<rparr>"

definition greeting :: string where
  \<open>greeting = ''Hello! I'm your Marketing Campaign Data Quality Agent. I can help you validate, fix, and analyze your campaign data. To get started, please upload a CSV file with your marketing campaign data.''\<close>

text \<open>The state \<open>App\<close> mounts with; \<open>ts\<close> is the ISO string of the mounting instant.\<close>

definition initial :: "string \<Rightarrow> app" where
  "initial ts =
     \<lparr>dataPath = [], isDataLoaded = False, appStatus = idle,
      messages = [\<lparr>id_m = 1, type = ''agent'', content = Str greeting, timestamp = ts,
                   components = Arr [], toolResults = Undefined\<rparr>],
      statusLog = [], requests = []\<rparr>"

text \<open>
  An \<open>async\<close> handler runs up to its \<open>await\<close>, and resumes when the call settles.
  Each handler is therefore two functions: \<open>_begin\<close> (up to the request) and \<open>_end\<close>
  (from the settled call on, given its outcome); other handlers may run in between.
\<close>

definition checkBackendHealth_begin :: "app \<Rightarrow> app" where
  "checkBackendHealth_begin st = issue healthCheck_request (setAppStatus connecting st)"

definition checkBackendHealth_end :: "axios_outcome \<Rightarrow> app \<Rightarrow> app" where
  "checkBackendHealth_end outcome st =
     (case healthCheck outcome of
        Inr r \<Rightarrow> setAppStatus connected st
      | Inl e \<Rightarrow> setAppStatus disconnected st)"

definition uploadButtons :: jsval where
  "uploadButtons = Arr
     [Obj [(''type'', Str ''button''), (''text'', Str ''Validate Data Quality''),
           (''action'', Str ''validate_data''), (''style'', Str ''primary'')],
      Obj [(''type'', Str ''button''), (''text'', Str ''Detect Anomalies''),
           (''action'', Str ''detect_anomalies''), (''style'', Str ''secondary'')],
      Obj [(''type'', Str ''button''), (''text'', Str ''Get Data Insights''),
           (''action'', Str ''get_insights''), (''style'', Str ''accent'')]]"

definition handleDataUpload_begin :: "string \<Rightarrow> app \<Rightarrow> app" where
  "handleDataUpload_begin filePath st = issue (uploadData_request filePath) (setAppStatus loading st)"

definition handleDataUpload_end :: "string \<Rightarrow> axios_outcome \<Rightarrow> clock \<Rightarrow> app \<Rightarrow> app" where
  \<open>handleDataUpload_end filePath outcome clk st =
     (case uploadData outcome of
        Inr r \<Rightarrow>
          append_message
            \<lparr>id_m = now clk, type = ''agent'',
             content = Str (''Great! I've loaded your data from "'' @ filePath
               @ ''". I can now help you validate, analyze, and fix any issues in your marketing campaign data. What would you like me to do first?''),
             timestamp = iso clk, components = uploadButtons, toolResults = Undefined\<rparr>
            (setAppStatus connected (st\<lparr>dataPath := filePath, isDataLoaded := True\<rparr>))
      | Inl e \<Rightarrow>
          append_message
            \<lparr>id_m = now clk, type = ''agent'',
             content = Str (''Sorry, I couldn't load the data file. Please make sure the file path is correct and the file exists. Error: ''
               @ message_of e),
             timestamp = iso clk, components = Arr [], toolResults = Undefined\<rparr>
            (setAppStatus error st))\<close>

definition handleSendMessage_begin :: "jsval \<Rightarrow> clock \<Rightarrow> app \<Rightarrow> app" where
  "handleSendMessage_begin msg clk st =
     issue (sendMessage_request msg)
       (setAppStatus processing
         (append_message
            \<lparr>id_m = now clk, type = ''user'', content = msg, timestamp = iso clk,
             components = Undefined, toolResults = Undefined\<rparr> st))"

text \<open>The \<open>catch\<close> block of \<open>handleSendMessage\<close>.\<close>

definition handleSendMessage_catch :: "exn \<Rightarrow> clock \<Rightarrow> app \<Rightarrow> app" where
  "handleSendMessage_catch e clk st =
     append_message
       \<lparr>id_m = now clk + 1, type = ''agent'',
        content = Str (''Sorry, I encountered an error processing your request: '' @ message_of e),
        timestamp = iso clk, components = Arr [], toolResults = Undefined\<rparr>
       (setAppStatus error st)"

text \<open>
  The rest of the \<open>try\<close> block; \<open>reply\<close> is the source's local \<open>response\<close>, the
  value \<open>sendMessage\<close> returned. Reading \<open>response.message\<close> throws inside the
  \<open>try\<close> when the body is null, and the \<open>catch\<close> block takes over.
\<close>

definition handleSendMessage_end :: "axios_outcome \<Rightarrow> clock \<Rightarrow> app \<Rightarrow> app" where
  "handleSendMessage_end outcome clk st =
     (case sendMessage outcome of
        Inl e \<Rightarrow> handleSendMessage_catch e clk st
      | Inr reply \<Rightarrow>
          (case field reply ''message'' of
             Inl e \<Rightarrow> handleSendMessage_catch e clk st
           | Inr c \<Rightarrow>
               setAppStatus connected
                 (append_message
                    \<lparr>id_m = now clk + 1, type = ''agent'', content = c, timestamp = iso clk,
                     components = or_js (member_js reply ''components'') (Arr []),
                     toolResults = or_js (member_js reply ''tool_results'') (Arr [])\<rparr> st)))"

subsection \<open>Quick actions\<close>

definition actionMap :: "(string \<times> jsval) list" where
  "actionMap =
     [(''validate_data'', Str ''Please validate my data quality''),
      (''detect_anomalies'', Str ''Please detect any anomalies in my data''),
      (''get_insights'', Str ''Please give me insights about my campaign data''),
      (''fix_data'', Str ''Please fix the data quality issues''),
      (''fix_anomalies'', Str ''Please fix the detected anomalies'')]"

text \<open>The property names an object literal inherits from \<open>Object.prototype\<close>.\<close>

definition Object_prototype :: "string list" where
  "Object_prototype =
     [''constructor'', ''__defineGetter__'', ''__defineSetter__'', ''hasOwnProperty'',
      ''__lookupGetter__'', ''__lookupSetter__'', ''isPrototypeOf'', ''propertyIsEnumerable'',
      ''toString'', ''valueOf'', ''__proto__'', ''toLocaleString'']"

text \<open>
  \<open>obj[key]\<close> on an object literal with a computed key: the key is converted to a
  string (which may throw), own properties are searched first, then the prototype.
\<close>

definition lookup_literal :: "(string \<times> jsval) list \<Rightarrow> jsval \<Rightarrow> exn + jsval" where
  "lookup_literal kvs key =
     (case to_string key of
        Inl e \<Rightarrow> Inl e
      | Inr k \<Rightarrow>
          Inr (case map_of kvs k of
                 Some v \<Rightarrow> v
               | None \<Rightarrow> if k \<in> set Object_prototype then Inherited k else Undefined))"

text \<open>\<open>actionMap[action] || action\<close>, the text \<open>handleQuickAction\<close> sends.\<close>

definition quickActionMessage :: "jsval \<Rightarrow> exn + jsval" where
  "quickActionMessage action =
     (case lookup_literal actionMap action of
        Inl e \<Rightarrow> Inl e
      | Inr v \<Rightarrow> Inr (or_js v action))"

text \<open>
  \<open>handleQuickAction\<close> up to the request. A throw of the lookup ends the handler before
  it has done anything.
\<close>

definition handleQuickAction_begin :: "jsval \<Rightarrow> clock \<Rightarrow> app \<Rightarrow> app" where
  "handleQuickAction_begin action clk st =
     (case quickActionMessage action of
        Inl e \<Rightarrow> st
      | Inr msg \<Rightarrow> handleSendMessage_begin msg clk st)"


section \<open>The chat input (\<open>ChatInterface\<close>)\<close>

text \<open>
  \<open>String.prototype.trim\<close> removes white space and line terminators at both ends.
  Of these, the characters below 256 are tab, line feed, vertical tab, form feed,
  carriage return, space and no-break space.
\<close>

definition whitespace :: "char \<Rightarrow> bool" where
  "whitespace c =
     (c \<in> {CHR 0x09, CHR 0x0A, CHR 0x0B, CHR 0x0C, CHR 0x0D, CHR 0x20, CHR 0xA0})"

definition trim :: "string \<Rightarrow> string" where
  "trim s = rev (dropWhile whitespace (rev (dropWhile whitespace s)))"

text \<open>\<open>App\<close> passes \<open>isLoading={appStatus === 'processing'}\<close>.\<close>

definition isLoading :: "app \<Rightarrow> bool" where
  "isLoading st = (appStatus st = processing)"

text \<open>
  \<open>handleSubmit\<close>: the text handed to \<open>onSendMessage\<close> (if any) and the new content
  of the input box.
\<close>

definition handleSubmit :: "string \<Rightarrow> bool \<Rightarrow> string option \<times> string" where
  "handleSubmit inputValue loading' =
     (if truthy (Str (trim inputValue)) \<and> \<not> loading'
      then (Some (trim inputValue), [])
      else (None, inputValue))"

text \<open>A submission of the form, with \<open>onSendMessage = handleSendMessage\<close>.\<close>

definition submit_begin :: "string \<Rightarrow> clock \<Rightarrow> app \<Rightarrow> app" where
  "submit_begin inputValue clk st =
     (case fst (handleSubmit inputValue (isLoading st)) of
        Some text' \<Rightarrow> handleSendMessage_begin (Str text') clk st
      | None \<Rightarrow> st)"

section \<open>Rendering a message (\<open>MessageBubbleComponent\<close>, \<open>DataChart\<close>, \<open>ActionButton\<close>)\<close>

text \<open>
  The elements \<open>renderComponent\<close> creates, with the props it passes. For a button the
  second argument is the value its \<open>onClick\<close> hands to \<open>onQuickAction\<close>, the last one
  the \<open>size\<close> prop (\<open>medium\<close> is the default of \<open>ActionButton\<close>).
\<close>

datatype element =
    DataTable_el jsval jsval jsval
  | DataChart_el jsval jsval jsval
  | ActionButton_el jsval jsval jsval string

text \<open>\<open>renderComponent\<close>; \<open>None\<close> is the \<open>null\<close> of the default branch.\<close>

definition renderComponent :: "jsval \<Rightarrow> exn + element option" where
  "renderComponent component =
     (case field component ''type'' of
        Inl e \<Rightarrow> Inl e
      | Inr t \<Rightarrow>
          if t = Str ''table'' then
            Inr (Some (DataTable_el (member_js component ''title'')
                         (member_js component ''headers'') (member_js component ''rows'')))
          else if t = Str ''chart'' then
            Inr (Some (DataChart_el (or_js (member_js component ''chart_type'') (Str ''bar''))
                         (member_js component ''title'') (member_js component ''data'')))
          else if t = Str ''button'' then
            Inr (Some (ActionButton_el (member_js component ''text'')
                         (member_js component ''action'') (member_js component ''style'') ''medium''))
          else Inr None)"

text \<open>\<open>Array.prototype.map\<close> and \<open>filter\<close> with a callback that may throw.\<close>

fun array_map :: "(jsval \<Rightarrow> exn + 'a) \<Rightarrow> jsval list \<Rightarrow> exn + 'a list" where
  "array_map f [] = Inr []"
| "array_map f (x # xs) =
     (case f x of
        Inl e \<Rightarrow> Inl e
      | Inr y \<Rightarrow> (case array_map f xs of Inl e \<Rightarrow> Inl e | Inr ys \<Rightarrow> Inr (y # ys)))"

fun array_filter :: "(jsval \<Rightarrow> exn + jsval) \<Rightarrow> jsval list \<Rightarrow> exn + jsval list" where
  "array_filter f [] = Inr []"
| "array_filter f (x # xs) =
     (case f x of
        Inl e \<Rightarrow> Inl e
      | Inr keep \<Rightarrow>
          (case array_filter f xs of
             Inl e \<Rightarrow> Inl e
           | Inr ys \<Rightarrow> Inr (if truthy keep then x # ys else ys)))"

text \<open>
  What one bubble shows: the status (the badge appears when it is truthy), the children
  of \<open>ComponentsContainer\<close> in order, and the buttons of the \<open>ButtonGroup\<close> strip.
\<close>

record bubble =
  badge :: jsval
  inline :: "element option list"
  strip :: "element list"

text \<open>
  The body of \<open>MessageBubbleComponent\<close>. A falsy \<open>components\<close> renders neither block.
  A truthy value that is not an array has no \<open>map\<close> and no \<open>filter\<close>, so one of the two
  blocks throws whatever its \<open>length\<close> is.
\<close>

definition MessageBubbleComponent :: "message \<Rightarrow> exn + bubble" where
  "MessageBubbleComponent msg =
     (case getMessageStatus msg of
        Inl e \<Rightarrow> Inl e
      | Inr messageStatus \<Rightarrow>
          if \<not> truthy (components msg)
          then Inr \<lparr>badge = messageStatus, inline = [], strip = []\<rparr>
          else
            (case components msg of
               Arr cs \<Rightarrow>
                 (case (if 0 < length cs then array_map renderComponent cs else Inr []) of
                    Inl e \<Rightarrow> Inl e
                  | Inr shown \<Rightarrow>
                      (case array_filter
                              (\<lambda>c. case field c ''type'' of
                                   Inl e \<Rightarrow> Inl e
                                 | Inr t \<Rightarrow> Inr (Bool (t = Str ''button''))) cs of
                         Inl e \<Rightarrow> Inl e
                       | Inr buttons \<Rightarrow>
                           Inr \<lparr>badge = messageStatus, inline = shown,
                                strip = map (\<lambda>button.
                                   ActionButton_el (member_js button ''text'')
                                     (member_js button ''action'') (member_js button ''style'')
                                     ''small'') buttons\<rparr>))
             | _ \<Rightarrow> Inl (TypeError ''message.components is not an array'')))"

text \<open>
  A click on an element: \<open>ActionButton\<close> calls its \<open>onClick\<close> (neither \<open>disabled\<close> nor
  \<open>loading\<close> is ever passed), which calls \<open>onQuickAction\<close>, that is \<open>handleQuickAction\<close>.
\<close>

fun click_begin :: "element \<Rightarrow> clock \<Rightarrow> app \<Rightarrow> app" where
  "click_begin (ActionButton_el text' action style' size') clk st = handleQuickAction_begin action clk st"
| "click_begin _ clk st = st"

text \<open>
  \<open>DataChart\<close> with props \<open>type\<close>, \<open>title\<close> and \<open>data\<close>: a placeholder when there is
  nothing to plot, otherwise the \<open>Line\<close> or the \<open>Bar\<close> component of the charting
  library, with the dataset label, the labels and the values.
\<close>

datatype chart_view =
    NoData jsval
  | Bar jsval jsval jsval
  | Line jsval jsval jsval

definition DataChart :: "jsval \<Rightarrow> jsval \<Rightarrow> jsval \<Rightarrow> chart_view" where
  "DataChart ty title d =
     (let kind = (if ty = Undefined then Str ''bar'' else ty);
          label = or_js title (Str ''Data'');
          labels = or_js (optfield d ''x'') (Arr []);
          values = or_js (optfield d ''y'') (Arr [])
      in if \<not> truthy d \<or> \<not> truthy (member_js d ''x'') \<or> \<not> truthy (member_js d ''y'')
            \<or> member_js (member_js d ''x'') ''length'' = Num ''0''
         then NoData (or_js title (Str ''Chart''))
         else if kind = Str ''line'' then Line label labels values
         else Bar label labels values)"

text \<open>What a chart artifact of a message ends up as on screen.\<close>

definition chart_display :: "jsval \<Rightarrow> (exn + chart_view) option" where
  "chart_display component =
     (case renderComponent component of
        Inl e \<Rightarrow> Some (Inl e)
      | Inr (Some (DataChart_el ty title d)) \<Rightarrow> Some (Inr (DataChart ty title d))
      | Inr _ \<Rightarrow> None)"

section \<open>Runs of the application\<close>

text \<open>
  The steps that can interleave on the single thread: the two halves of each handler, a
  click on a quick-action button and a submission of the form. A step that creates a
  message carries the clock reading it takes.
\<close>

datatype event =
    HealthBegin
  | HealthEnd axios_outcome
  | UploadBegin string
  | UploadEnd string axios_outcome clock
  | SendBegin jsval clock
  | SendEnd axios_outcome clock
  | QuickAction jsval clock
  | Submit string clock

fun step :: "event \<Rightarrow> app \<Rightarrow> app" where
  "step HealthBegin st = checkBackendHealth_begin st"
| "step (HealthEnd outcome) st = checkBackendHealth_end outcome st"
| "step (UploadBegin filePath) st = handleDataUpload_begin filePath st"
| "step (UploadEnd filePath outcome clk) st = handleDataUpload_end filePath outcome clk st"
| "step (SendBegin msg clk) st = handleSendMessage_begin msg clk st"
| "step (SendEnd outcome clk) st = handleSendMessage_end outcome clk st"
| "step (QuickAction action clk) st = handleQuickAction_begin action clk st"
| "step (Submit inputValue clk) st = submit_begin inputValue clk st"

fun run :: "event list \<Rightarrow> app \<Rightarrow> app" where
  "run [] st = st"
| "run (e # es) st = run es (step e st)"

text \<open>The \<open>Date.now()\<close> readings a run takes, in order.\<close>

fun readings :: "event list \<Rightarrow> int list" where
  "readings [] = []"
| "readings (UploadEnd filePath outcome clk # es) = now clk # readings es"
| "readings (SendBegin msg clk # es) = now clk # readings es"
| "readings (SendEnd outcome clk # es) = now clk # readings es"
| "readings (QuickAction action clk # es) = now clk # readings es"
| "readings (Submit inputValue clk # es) = now clk # readings es"
| "readings (e # es) = readings es"

section \<open>Vocabulary of the properties\<close>

text \<open>
  \<open>path ks v\<close> follows the keys \<open>ks\<close> from \<open>v\<close> through nested objects; \<open>Undefined\<close>
  when a step is missing. \<open>elements\<close> are the entries of an array.
\<close>

fun path :: "string list \<Rightarrow> jsval \<Rightarrow> jsval" where
  "path [] v = v"
| "path (k # ks) (Obj kvs) = (case map_of kvs k of Some x \<Rightarrow> path ks x | None \<Rightarrow> Undefined)"
| "path (k # ks) _ = Undefined"

fun elements :: "jsval \<Rightarrow> jsval list" where
  "elements (Arr xs) = xs"
| "elements _ = []"

text \<open>
  A tool result the status scans can read: it is not null, and the issues of its nested
  payload (\<open>result.result.issues\<close>), when present, are an array without null entries.
\<close>

definition well_formed_toolResult :: "jsval \<Rightarrow> bool" where
  "well_formed_toolResult tr =
     (\<not> nullish tr \<and>
      (case path [''result'', ''result'', ''issues''] tr of
         Undefined \<Rightarrow> True
       | Null \<Rightarrow> True
       | Arr xs \<Rightarrow> list_all (\<lambda>i. \<not> nullish i) xs
       | _ \<Rightarrow> False))"

text \<open>An element of a bubble that is a button.\<close>

fun is_button_element :: "element option \<Rightarrow> bool" where
  "is_button_element (Some (ActionButton_el t a s z)) = True"
| "is_button_element _ = False"

text \<open>The statuses in which an operation is in flight.\<close>

definition busy :: "status \<Rightarrow> bool" where
  "busy s = (s = connecting \<or> s = loading \<or> s = processing)"

section \<open>Reading nested fields\<close>

lemma optfield_path: "k \<noteq> ''length'' \<Longrightarrow> optfield v k = path [k] v"
  by (cases v) (auto simp: optfield_def split: option.splits)

lemma path_Undefined: "path ks Undefined = Undefined"
  by (cases ks) simp_all

lemma path_append: "path (ks @ ks') v = path ks' (path ks v)"
proof (induction ks arbitrary: v)
  case Nil
  show ?case by simp
next
  case (Cons k ks)
  show ?case by (cases v) (simp_all add: Cons.IH path_Undefined split: option.splits)
qed

lemma path_Cons: "path (k # ks) v = path ks (path [k] v)"
  using path_append [of "[k]" ks v] by simp

section \<open>The status badge\<close>

lemma array_some_ex:
  assumes "\<And>x. x \<in> set xs \<Longrightarrow> cb x = Inr (Bool (P x))"
  shows "array_some cb xs = Inr (\<exists>x\<in>set xs. P x)"
  using assms by (induction xs) auto

lemma error_callback:
  "\<not> nullish tr \<Longrightarrow>
   (case field tr ''result'' of Inl e \<Rightarrow> Inl e
    | Inr r \<Rightarrow> Inr (Bool (optfield r ''status'' = Str ''error'')))
   = Inr (Bool (path [''result'', ''status''] tr = Str ''error''))"
  apply (simp add: field_def)
  apply (subst path_Cons)
  apply (simp add: optfield_path)
  apply (cases tr; simp add: optfield_def split: option.splits)
  done


lemma warning_callback:
  assumes "well_formed_toolResult tr"
  shows "(case field tr ''result'' of Inl e \<Rightarrow> Inl e
          | Inr r \<Rightarrow>
              optsome (optfield (optfield r ''result'') ''issues'')
                (\<lambda>issue. case field issue ''severity'' of
                     Inl e \<Rightarrow> Inl e
                   | Inr s \<Rightarrow> Inr (Bool (s = Str ''warning''))))
         = (if nullish (path [''result'', ''result'', ''issues''] tr) then Inr Undefined
            else Inr (Bool (\<exists>i\<in>set (elements (path [''result'', ''result'', ''issues''] tr)).
                     path [''severity''] i = Str ''warning'')))"
proof -
  let ?iss = "path [''result'', ''result'', ''issues''] tr"
  from assms have nn: "\<not> nullish tr" by (simp add: well_formed_toolResult_def)
  have p: "optfield (optfield (member_js tr ''result'') ''result'') ''issues'' = ?iss"
  proof -
    have "member_js tr ''result'' = path [''result''] tr"
      using nn optfield_path [of "''result''" tr] by (simp add: optfield_def)
    moreover have "?iss = path [''issues''] (path [''result''] (path [''result''] tr))"
      using path_append [of "[''result'']" "[''result'', ''issues'']" tr]
            path_append [of "[''result'']" "[''issues'']" "path [''result''] tr"]
      by simp
    ultimately show ?thesis by (simp add: optfield_path)
  qed
  show ?thesis
  proof (cases "nullish ?iss")
    case True
    then show ?thesis using nn p by (simp add: field_def optsome_def)
  next
    case False
    with assms obtain xs where xs: "?iss = Arr xs" "\<forall>i\<in>set xs. \<not> nullish i"
      by (auto simp: well_formed_toolResult_def list_all_iff split: jsval.splits)
    have "array_some (\<lambda>issue. case field issue ''severity'' of
                     Inl e \<Rightarrow> Inl e
                   | Inr s \<Rightarrow> Inr (Bool (s = Str ''warning''))) xs
          = Inr (\<exists>i\<in>set xs. path [''severity''] i = Str ''warning'')"
    proof (rule array_some_ex)
      fix x assume "x \<in> set xs"
      with xs have "\<not> nullish x" by simp
      then show "(case field x ''severity'' of Inl e \<Rightarrow> Inl e
                  | Inr s \<Rightarrow> Inr (Bool (s = Str ''warning'')))
                 = Inr (Bool (path [''severity''] x = Str ''warning''))"
        by (cases x) (simp_all add: field_def split: option.splits)
    qed
    then show ?thesis using nn p xs by (simp add: field_def optsome_def)
  qed
qed


lemma getMessageStatus_well_formed:
  assumes wf: "\<forall>tr\<in>set trs. well_formed_toolResult tr"
  shows "getMessageStatus (m\<lparr>toolResults := Arr trs\<rparr>) =
     Inr (if \<exists>tr\<in>set trs. path [''result'', ''status''] tr = Str ''error''
          then Str ''error''
          else if \<exists>tr\<in>set trs. \<exists>i\<in>set (elements (path [''result'', ''result'', ''issues''] tr)).
                    path [''severity''] i = Str ''warning''
          then Str ''warning''
          else Str ''success'')"
proof -
  let ?W = "\<lambda>tr. \<exists>i\<in>set (elements (path [''result'', ''result'', ''issues''] tr)).
                    path [''severity''] i = Str ''warning''"
  have e: "array_some (\<lambda>result. case field result ''result'' of
                     Inl e \<Rightarrow> Inl e
                   | Inr r \<Rightarrow> Inr (Bool (optfield r ''status'' = Str ''error''))) trs
        = Inr (\<exists>tr\<in>set trs. path [''result'', ''status''] tr = Str ''error'')"
    using wf by (intro array_some_ex error_callback) (simp add: well_formed_toolResult_def)
  have w: "array_some (\<lambda>result. case field result ''result'' of
                         Inl e \<Rightarrow> Inl e
                       | Inr r \<Rightarrow>
                           optsome (optfield (optfield r ''result'') ''issues'')
                             (\<lambda>issue. case field issue ''severity'' of
                                  Inl e \<Rightarrow> Inl e
                                | Inr s \<Rightarrow> Inr (Bool (s = Str ''warning'')))) trs
        = Inr (\<exists>tr\<in>set trs. ?W tr)"
    using wf
  proof (induction trs)
    case Nil
    show ?case by simp
  next
    case (Cons tr trs)
    then have "well_formed_toolResult tr" by simp
    note cb = warning_callback [OF this]
    show ?case
    proof (cases "nullish (path [''result'', ''result'', ''issues''] tr)")
      case True
      then have "\<not> ?W tr" by (cases "path [''result'', ''result'', ''issues''] tr") simp_all
      with True Cons cb show ?thesis by simp
    next
      case False
      with Cons cb show ?thesis by simp
    qed
  qed
  show ?thesis by (simp add: getMessageStatus_def e w)
qed


text \<open>
  Claim C1, as the code has it. For a message whose \<open>toolResults\<close> is a non-empty array
  of well-formed tool results, the status is \<open>error\<close> if some tool result has
  \<open>result.status = 'error'\<close>; otherwise \<open>warning\<close> if some tool result has an issue of
  severity \<open>'warning'\<close> among the issues of its nested payload \<open>result.result.issues\<close>;
  otherwise \<open>success\<close>. Every permutation of the array gives the same status.
\<close>

theorem getMessageStatus_precedence:
  assumes "trs \<noteq> []" and "\<forall>tr\<in>set trs. well_formed_toolResult tr"
  shows "getMessageStatus (m\<lparr>toolResults := Arr trs\<rparr>) =
           Inr (if \<exists>tr\<in>set trs. path [''result'', ''status''] tr = Str ''error''
                then Str ''error''
                else if \<exists>tr\<in>set trs.
                          \<exists>i\<in>set (elements (path [''result'', ''result'', ''issues''] tr)).
                            path [''severity''] i = Str ''warning''
                then Str ''warning''
                else Str ''success'')
         \<and> (\<forall>trs'. mset trs' = mset trs \<longrightarrow>
                getMessageStatus (m\<lparr>toolResults := Arr trs'\<rparr>) =
                getMessageStatus (m\<lparr>toolResults := Arr trs\<rparr>))"
proof (intro conjI allI impI)
  show "getMessageStatus (m\<lparr>toolResults := Arr trs\<rparr>) =
           Inr (if \<exists>tr\<in>set trs. path [''result'', ''status''] tr = Str ''error''
                then Str ''error''
                else if \<exists>tr\<in>set trs.
                          \<exists>i\<in>set (elements (path [''result'', ''result'', ''issues''] tr)).
                            path [''severity''] i = Str ''warning''
                then Str ''warning''
                else Str ''success'')"
    using assms(2) by (rule getMessageStatus_well_formed)
next
  fix trs' assume "mset trs' = mset trs"
  then have s: "set trs' = set trs" by (rule mset_eq_setD)
  with assms(2) have "\<forall>tr\<in>set trs'. well_formed_toolResult tr" by simp
  then show "getMessageStatus (m\<lparr>toolResults := Arr trs'\<rparr>) =
             getMessageStatus (m\<lparr>toolResults := Arr trs\<rparr>)"
    using assms(2) by (simp only: getMessageStatus_well_formed s)
qed

text \<open>
  C1 at a concrete message: a tool result with a warning in its nested payload, followed
  by a failed one, gives \<open>error\<close>.
\<close>

theorem getMessageStatus_precedence_witness:
  "[Obj [(''toolName'', Str ''validate''),
         (''result'', Obj [(''status'', Str ''success''),
            (''result'', Obj [(''issues'', Arr [Obj [(''severity'', Str ''warning'')]])])])],
    Obj [(''toolName'', Str ''fix''), (''result'', Obj [(''status'', Str ''error'')])]] \<noteq> []
   \<and> list_all well_formed_toolResult
        [Obj [(''toolName'', Str ''validate''),
              (''result'', Obj [(''status'', Str ''success''),
                 (''result'', Obj [(''issues'', Arr [Obj [(''severity'', Str ''warning'')]])])])],
         Obj [(''toolName'', Str ''fix''), (''result'', Obj [(''status'', Str ''error'')])]]
   \<and> getMessageStatus
        \<lparr>id_m = 8, type = ''agent'', content = Str ''done'', timestamp = ''t'',
         components = Arr [],
         toolResults = Arr
           [Obj [(''toolName'', Str ''validate''),
                 (''result'', Obj [(''status'', Str ''success''),
                    (''result'', Obj [(''issues'', Arr [Obj [(''severity'', Str ''warning'')]])])])],
            Obj [(''toolName'', Str ''fix''), (''result'', Obj [(''status'', Str ''error'')])]]\<rparr>
       = Inr (Str ''error'')"
proof -
  let ?a = "Obj [(''toolName'', Str ''validate''),
         (''result'', Obj [(''status'', Str ''success''),
            (''result'', Obj [(''issues'', Arr [Obj [(''severity'', Str ''warning'')]])])])]"
  let ?b = "Obj [(''toolName'', Str ''fix''), (''result'', Obj [(''status'', Str ''error'')])]"
  let ?m = "\<lparr>id_m = 8, type = ''agent'', content = Str ''done'', timestamp = ''t'',
         components = Arr [], toolResults = Undefined\<rparr>"
  have h1: "[?a, ?b] \<noteq> []" by simp
  have h2: "\<forall>tr\<in>set [?a, ?b]. well_formed_toolResult tr"
    by (simp add: well_formed_toolResult_def)
  show ?thesis
    using h1 h2 getMessageStatus_precedence [OF h1 h2, of ?m] by (simp add: list_all_iff)
qed

text \<open>
  C1 as stated fails for a tool result of the documented shape
  \<open>{toolName, result: {status, issues}}\<close>: an issue of severity \<open>'warning'\<close> listed
  directly under \<open>result\<close> is not read, and the status is \<open>success\<close>.
\<close>

theorem getMessageStatus_spec_shape_counterexample:
  "path [''result'', ''issues'']
        (Obj [(''toolName'', Str ''validate''),
              (''result'', Obj [(''status'', Str ''success''),
                 (''issues'', Arr [Obj [(''severity'', Str ''warning''),
                                        (''description'', Str ''missing values'')]])])])
     = Arr [Obj [(''severity'', Str ''warning''), (''description'', Str ''missing values'')]]
   \<and> getMessageStatus
        \<lparr>id_m = 8, type = ''agent'', content = Str ''done'', timestamp = ''t'',
         components = Arr [],
         toolResults = Arr
           [Obj [(''toolName'', Str ''validate''),
                 (''result'', Obj [(''status'', Str ''success''),
                    (''issues'', Arr [Obj [(''severity'', Str ''warning''),
                                           (''description'', Str ''missing values'')]])])]]\<rparr>
       = Inr (Str ''success'')"
  by (simp add: getMessageStatus_def field_def optfield_def optsome_def)

lemma getMessageStatus_empty_array:
  "toolResults m = Arr [] \<Longrightarrow> getMessageStatus m = Inr (Str ''success'')"
  by (simp add: getMessageStatus_def)

text \<open>
  Claim C2 on the code. A reply whose \<open>components\<close> and \<open>tool_results\<close> are absent or
  empty arrays gives a message with both fields equal to the empty array, as claimed.
  The empty array is truthy, though, so \<open>getMessageStatus\<close> scans it and answers
  \<open>success\<close>: the badge is shown, where the claim says none is.
\<close>

theorem handleSendMessage_empty_reply_badge:
  assumes "\<not> nullish reply"
    and "member_js reply ''components'' = Undefined \<or> member_js reply ''components'' = Arr []"
    and "member_js reply ''tool_results'' = Undefined \<or> member_js reply ''tool_results'' = Arr []"
  shows "messages (handleSendMessage_end (Fulfilled \<lparr>status = code, data = reply\<rparr>) clk st)
           = messages st @ [last (messages (handleSendMessage_end (Fulfilled \<lparr>status = code, data = reply\<rparr>) clk st))]
       \<and> components (last (messages (handleSendMessage_end (Fulfilled \<lparr>status = code, data = reply\<rparr>) clk st))) = Arr []
       \<and> toolResults (last (messages (handleSendMessage_end (Fulfilled \<lparr>status = code, data = reply\<rparr>) clk st))) = Arr []
       \<and> getMessageStatus (last (messages (handleSendMessage_end (Fulfilled \<lparr>status = code, data = reply\<rparr>) clk st)))
           = Inr (Str ''success'')
       \<and> badge_shown (last (messages (handleSendMessage_end (Fulfilled \<lparr>status = code, data = reply\<rparr>) clk st)))"
proof -
  let ?st = "handleSendMessage_end (Fulfilled \<lparr>status = code, data = reply\<rparr>) clk st"
  let ?m = "\<lparr>id_m = now clk + 1, type = ''agent'', content = member_js reply ''message'',
             timestamp = iso clk, components = Arr [], toolResults = Arr []\<rparr>"
  have c: "or_js (member_js reply ''components'') (Arr []) = Arr []"
    using assms(2) by (auto simp: or_js_def)
  have t: "or_js (member_js reply ''tool_results'') (Arr []) = Arr []"
    using assms(3) by (auto simp: or_js_def)
  have "messages ?st = messages st @ [?m]"
    using assms(1)
    by (simp add: handleSendMessage_end_def sendMessage_def api_def field_def c t
        setAppStatus_def append_message_def)
  then show ?thesis
    by (simp add: getMessageStatus_empty_array badge_shown_def)
qed

text \<open>C2 at a reply that carries a text only: the agent message shows the \<open>success\<close> badge.\<close>

theorem handleSendMessage_empty_reply_badge_witness:
  "\<not> nullish (Obj [(''message'', Str ''All good'')])
   \<and> member_js (Obj [(''message'', Str ''All good'')]) ''components'' = Undefined
   \<and> member_js (Obj [(''message'', Str ''All good'')]) ''tool_results'' = Undefined
   \<and> getMessageStatus (last (messages (handleSendMessage_end
         (Fulfilled \<lparr>status = 200, data = Obj [(''message'', Str ''All good'')]\<rparr>)
         \<lparr>now = 1700000000500, iso = ''2023-11-14T22:13:20.500Z''\<rparr>
         (handleSendMessage_begin (Str ''hello'')
            \<lparr>now = 1700000000000, iso = ''2023-11-14T22:13:20.000Z''\<rparr>
            (initial ''2023-11-14T22:13:00.000Z'')))))
     = Inr (Str ''success'')
   \<and> badge_shown (last (messages (handleSendMessage_end
         (Fulfilled \<lparr>status = 200, data = Obj [(''message'', Str ''All good'')]\<rparr>)
         \<lparr>now = 1700000000500, iso = ''2023-11-14T22:13:20.500Z''\<rparr>
         (handleSendMessage_begin (Str ''hello'')
            \<lparr>now = 1700000000000, iso = ''2023-11-14T22:13:20.000Z''\<rparr>
            (initial ''2023-11-14T22:13:00.000Z'')))))"
proof -
  let ?reply = "Obj [(''message'', Str ''All good'')]"
  have h1: "\<not> nullish ?reply" by simp
  have h2: "member_js ?reply ''components'' = Undefined \<or> member_js ?reply ''components'' = Arr []"
    by simp
  have h3: "member_js ?reply ''tool_results'' = Undefined \<or> member_js ?reply ''tool_results'' = Arr []"
    by simp
  show ?thesis
    using handleSendMessage_empty_reply_badge [OF h1 h2 h3, of 200
        "\<lparr>now = 1700000000500, iso = ''2023-11-14T22:13:20.500Z''\<rparr>"
        "handleSendMessage_begin (Str ''hello'')
            \<lparr>now = 1700000000000, iso = ''2023-11-14T22:13:20.000Z''\<rparr>
            (initial ''2023-11-14T22:13:00.000Z'')"]
    by simp
qed

section \<open>Gateway failures\<close>

lemma response_rejected_text:
  "response_rejected err =
     (case response err of
        Some r \<Rightarrow>
          throw_new_Error
            (if truthy (path [''detail''] (data r)) then path [''detail''] (data r)
             else if truthy (path [''message''] (data r)) then path [''message''] (data r)
             else Str (''Server error: '' @ decimal (unat (status r))))
      | None \<Rightarrow>
          Error (if request err
                 then ''Cannot connect to server. Please make sure the backend is running.''
                 else if message err = [] then ''An unexpected error occurred''
                 else message err))"
  by (simp add: response_rejected_def throw_new_Error_def or_js_def optfield_path
      split: option.splits)

lemma gateway_methods_rejected:
  "list_all (\<lambda>call. call (Rejected err) = Inl (response_rejected err))
     [healthCheck, uploadData, sendMessage, getAvailableTools, executeTool]"
  by (simp add: healthCheck_def uploadData_def sendMessage_def getAvailableTools_def
      executeTool_def api_def)

lemma handleSendMessage_end_rejected:
  "handleSendMessage_end (Rejected err) clk s =
     handleSendMessage_catch (response_rejected err) clk s"
  by (simp add: handleSendMessage_end_def sendMessage_def api_def)

text \<open>
  Claim C3, as the code has it. The instance is created with a timeout of 30000 ms. When
  a call ends without a response (the request was sent, nothing came back: a network
  failure or the expiry of the timeout), every gateway method throws an \<open>Error\<close> with the
  fixed message \<open>Cannot connect to server. Please make sure the backend is running.\<close>
  For a chat turn, the status set to \<open>processing\<close> at submission becomes \<open>error\<close> in one
  transition, and exactly one agent message is appended, with empty components, whose
  content ends with that fixed message.
\<close>

theorem no_response_cannot_connect:
  assumes "response err = None" and "request err"
  shows "timeout = 30000
     \<and> list_all (\<lambda>call. call (Rejected err) =
            Inl (Error ''Cannot connect to server. Please make sure the backend is running.''))
          [healthCheck, uploadData, sendMessage, getAvailableTools, executeTool]
     \<and> appStatus (handleSendMessage_begin msg clk0 st) = processing
     \<and> appStatus (handleSendMessage_end (Rejected err) clk s) = error
     \<and> statusLog (handleSendMessage_end (Rejected err) clk s) = statusLog s @ [error]
     \<and> messages (handleSendMessage_end (Rejected err) clk s) =
         messages s @
           [\<lparr>id_m = now clk + 1, type = ''agent'',
             content = Str (''Sorry, I encountered an error processing your request: ''
                @ ''Cannot connect to server. Please make sure the backend is running.''),
             timestamp = iso clk, components = Arr [], toolResults = Undefined\<rparr>]
     \<and> sublist ''Cannot connect to server. Please make sure the backend is running.''
           (''Sorry, I encountered an error processing your request: ''
                @ ''Cannot connect to server. Please make sure the backend is running.'')"
proof -
  have r: "response_rejected err =
      Error ''Cannot connect to server. Please make sure the backend is running.''"
    using assms by (simp add: response_rejected_text)
  have "sublist ''Cannot connect to server. Please make sure the backend is running.''
           (''Sorry, I encountered an error processing your request: ''
                @ ''Cannot connect to server. Please make sure the backend is running.'' @ [])"
    by (rule sublist_appendI)
  then show ?thesis
    using gateway_methods_rejected [of err]
    by (simp add: r handleSendMessage_end_rejected handleSendMessage_catch_def
        handleSendMessage_begin_def setAppStatus_def append_message_def issue_def timeout_def
        )
qed


text \<open>
  C3 at a timed-out chat turn on the fresh application: the status log reads
  \<open>processing\<close>, \<open>error\<close>, and the log holds the greeting, the user's text and the error
  bubble.
\<close>

theorem no_response_cannot_connect_witness:
  "response \<lparr>response = None, request = True, message = ''timeout of 30000ms exceeded''\<rparr> = None
   \<and> request \<lparr>response = None, request = True, message = ''timeout of 30000ms exceeded''\<rparr>
   \<and> sendMessage (Rejected \<lparr>response = None, request = True, message = ''timeout of 30000ms exceeded''\<rparr>)
       = Inl (Error ''Cannot connect to server. Please make sure the backend is running.'')
   \<and> statusLog (handleSendMessage_end
          (Rejected \<lparr>response = None, request = True, message = ''timeout of 30000ms exceeded''\<rparr>)
          \<lparr>now = 1700000030000, iso = ''2023-11-14T22:13:50.000Z''\<rparr>
          (handleSendMessage_begin (Str ''hello'')
             \<lparr>now = 1700000000000, iso = ''2023-11-14T22:13:20.000Z''\<rparr>
             (initial ''2023-11-14T22:13:00.000Z'')))
       = [processing, error]
   \<and> length (messages (handleSendMessage_end
          (Rejected \<lparr>response = None, request = True, message = ''timeout of 30000ms exceeded''\<rparr>)
          \<lparr>now = 1700000030000, iso = ''2023-11-14T22:13:50.000Z''\<rparr>
          (handleSendMessage_begin (Str ''hello'')
             \<lparr>now = 1700000000000, iso = ''2023-11-14T22:13:20.000Z''\<rparr>
             (initial ''2023-11-14T22:13:00.000Z''))))
       = 3"
proof -
  let ?err = "\<lparr>response = None, request = True, message = ''timeout of 30000ms exceeded''\<rparr>"
  have h1: "response ?err = None" by simp
  have h2: "request ?err" by simp
  show ?thesis
    using no_response_cannot_connect [OF h1 h2, of "Str ''hello''"
        "\<lparr>now = 1700000000000, iso = ''2023-11-14T22:13:20.000Z''\<rparr>"
        "initial ''2023-11-14T22:13:00.000Z''"
        "\<lparr>now = 1700000030000, iso = ''2023-11-14T22:13:50.000Z''\<rparr>"
        "handleSendMessage_begin (Str ''hello'')
             \<lparr>now = 1700000000000, iso = ''2023-11-14T22:13:20.000Z''\<rparr>
             (initial ''2023-11-14T22:13:00.000Z'')"]
    by (simp add: handleSendMessage_begin_def setAppStatus_def append_message_def issue_def
        initial_def)
qed

text \<open>
  C3 as stated fails: the bubble appended after a timeout does not contain the words
  \<open>cannot reach backend\<close>.
\<close>

theorem timeout_message_counterexample:
  "content (last (messages (handleSendMessage_end
          (Rejected \<lparr>response = None, request = True, message = ''timeout of 30000ms exceeded''\<rparr>)
          \<lparr>now = 1700000030000, iso = ''2023-11-14T22:13:50.000Z''\<rparr>
          (handleSendMessage_begin (Str ''hello'')
             \<lparr>now = 1700000000000, iso = ''2023-11-14T22:13:20.000Z''\<rparr>
             (initial ''2023-11-14T22:13:00.000Z'')))))
     = Str ''Sorry, I encountered an error processing your request: Cannot connect to server. Please make sure the backend is running.''
   \<and> \<not> sublist ''cannot reach backend''
         ''Sorry, I encountered an error processing your request: Cannot connect to server. Please make sure the backend is running.''"
proof -
  have "\<not> sublist ''cannot reach backend''
         ''Sorry, I encountered an error processing your request: Cannot connect to server. Please make sure the backend is running.''"
    by code_simp
  then show ?thesis
    by (simp add: handleSendMessage_end_rejected handleSendMessage_catch_def
        response_rejected_def throw_new_Error_def append_message_def setAppStatus_def)
qed

text \<open>
  Claim C7, as the code has it. When the server answered with a status that axios
  rejects, every gateway method throws what \<open>throw new Error(v)\<close> throws, where \<open>v\<close> is
  the body's \<open>detail\<close> if that is truthy, else the body's \<open>message\<close> if that is truthy,
  else the text \<open>Server error: \<close> followed by the status in decimal. So the exception
  is an \<open>Error\<close> with message \<open>v\<close> when \<open>v\<close> is a string, an \<open>Error\<close> with message
  \<open>String(v)\<close> when \<open>v\<close> is another value that converts, and the \<open>TypeError\<close> of the
  conversion when it does not (an object that owns a \<open>toString\<close> entry). When no request
  was sent either, the exception is an \<open>Error\<close> with the underlying error's message, or
  with \<open>An unexpected error occurred\<close> if that message is empty.
\<close>

theorem server_error_message:
  "(response err = Some r \<longrightarrow>
      (\<forall>v. v = (if truthy (path [''detail''] (data r)) then path [''detail''] (data r)
                else if truthy (path [''message''] (data r)) then path [''message''] (data r)
                else Str (''Server error: '' @ decimal (unat (status r)))) \<longrightarrow>
          list_all (\<lambda>call. call (Rejected err) =
                Inl (case to_string v of Inr m \<Rightarrow> Error m | Inl e \<Rightarrow> e))
              [healthCheck, uploadData, sendMessage, getAvailableTools, executeTool]
        \<and> (\<forall>m. v = Str m \<longrightarrow>
              list_all (\<lambda>call. call (Rejected err) = Inl (Error m))
                [healthCheck, uploadData, sendMessage, getAvailableTools, executeTool])
        \<and> (\<forall>kvs. v = Obj kvs \<and> ''toString'' \<in> fst ` set kvs \<longrightarrow>
              list_all (\<lambda>call. \<exists>t. call (Rejected err) = Inl (TypeError t))
                [healthCheck, uploadData, sendMessage, getAvailableTools, executeTool])))
   \<and> (response err = None \<and> \<not> request err \<longrightarrow>
      list_all (\<lambda>call. call (Rejected err) =
          Inl (Error (if message err = [] then ''An unexpected error occurred'' else message err)))
        [healthCheck, uploadData, sendMessage, getAvailableTools, executeTool])"
proof (intro conjI impI allI)
  fix v
  assume r: "response err = Some r"
    and v: "v = (if truthy (path [''detail''] (data r)) then path [''detail''] (data r)
                else if truthy (path [''message''] (data r)) then path [''message''] (data r)
                else Str (''Server error: '' @ decimal (unat (status r))))"
  have t: "response_rejected err = (case to_string v of Inr m \<Rightarrow> Error m | Inl e \<Rightarrow> e)"
    unfolding v using r by (simp add: response_rejected_text throw_new_Error_def)
  show all: "list_all (\<lambda>call. call (Rejected err) =
                Inl (case to_string v of Inr m \<Rightarrow> Error m | Inl e \<Rightarrow> e))
              [healthCheck, uploadData, sendMessage, getAvailableTools, executeTool]"
    using gateway_methods_rejected [of err] by (simp only: t)
  {
    fix m assume "v = Str m"
    with all show "list_all (\<lambda>call. call (Rejected err) = Inl (Error m))
                [healthCheck, uploadData, sendMessage, getAvailableTools, executeTool]"
      by simp
  }
  {
    fix kvs assume "v = Obj kvs \<and> ''toString'' \<in> fst ` set kvs"
    with all show "list_all (\<lambda>call. \<exists>t. call (Rejected err) = Inl (TypeError t))
                [healthCheck, uploadData, sendMessage, getAvailableTools, executeTool]"
      by simp
  }
next
  assume "response err = None \<and> \<not> request err"
  then show "list_all (\<lambda>call. call (Rejected err) =
          Inl (Error (if message err = [] then ''An unexpected error occurred'' else message err)))
        [healthCheck, uploadData, sendMessage, getAvailableTools, executeTool]"
    using gateway_methods_rejected [of err] by (simp add: response_rejected_text)
qed

lemma decimal_500: "decimal 500 = ''500''"
  by code_simp

text \<open>
  C7 at five rejected calls: a detail, a message only, an HTML body, a detail that cannot
  be converted, and a set-up failure.
\<close>

theorem server_error_message_witness:
  "sendMessage (Rejected \<lparr>response = Some \<lparr>status = 404, data = Obj [(''detail'', Str ''File not found'')]\<rparr>,
       request = True, message = ''Request failed with status code 404''\<rparr>)
     = Inl (Error ''File not found'')
   \<and> sendMessage (Rejected \<lparr>response = Some \<lparr>status = 500, data = Obj [(''message'', Str ''boom'')]\<rparr>,
       request = True, message = ''Request failed with status code 500''\<rparr>)
     = Inl (Error ''boom'')
   \<and> sendMessage (Rejected \<lparr>response = Some \<lparr>status = 500, data = Str ''<html>''\<rparr>,
       request = True, message = ''Request failed with status code 500''\<rparr>)
     = Inl (Error ''Server error: 500'')
   \<and> sendMessage (Rejected \<lparr>response = Some \<lparr>status = 422,
          data = Obj [(''detail'', Obj [(''toString'', Str ''x'')])]\<rparr>,
       request = True, message = ''Request failed with status code 422''\<rparr>)
     = Inl (TypeError ''Cannot convert object to primitive value'')
   \<and> sendMessage (Rejected \<lparr>response = None, request = False, message = ''Invalid URL''\<rparr>)
     = Inl (Error ''Invalid URL'')"
  using
    server_error_message [of "\<lparr>response = Some \<lparr>status = 404, data = Obj [(''detail'', Str ''File not found'')]\<rparr>,
       request = True, message = ''Request failed with status code 404''\<rparr>"
       "\<lparr>status = 404, data = Obj [(''detail'', Str ''File not found'')]\<rparr>"]
    server_error_message [of "\<lparr>response = Some \<lparr>status = 500, data = Obj [(''message'', Str ''boom'')]\<rparr>,
       request = True, message = ''Request failed with status code 500''\<rparr>"
       "\<lparr>status = 500, data = Obj [(''message'', Str ''boom'')]\<rparr>"]
    server_error_message [of "\<lparr>response = Some \<lparr>status = 500, data = Str ''<html>''\<rparr>,
       request = True, message = ''Request failed with status code 500''\<rparr>"
       "\<lparr>status = 500, data = Str ''<html>''\<rparr>"]
    server_error_message [of "\<lparr>response = Some \<lparr>status = 422,
          data = Obj [(''detail'', Obj [(''toString'', Str ''x'')])]\<rparr>,
       request = True, message = ''Request failed with status code 422''\<rparr>"
       "\<lparr>status = 422, data = Obj [(''detail'', Obj [(''toString'', Str ''x'')])]\<rparr>"]
    server_error_message [of "\<lparr>response = None, request = False, message = ''Invalid URL''\<rparr>" undefined]
  by (simp add: decimal_500)

text \<open>
  C7 as stated fails in four places: the fallback starts with a capital letter
  (\<open>Server error: 500\<close>); a \<open>detail\<close> that is present but empty is passed over for
  \<open>message\<close>; a \<open>detail\<close> that is an object owning a \<open>toString\<close> entry makes the
  interceptor throw a \<open>TypeError\<close> in place of an error carrying the detail; and an empty
  underlying message is replaced by a default text.
\<close>

theorem server_error_message_counterexample:
  "sendMessage (Rejected \<lparr>response = Some \<lparr>status = 500, data = Obj []\<rparr>,
       request = True, message = ''Request failed with status code 500''\<rparr>)
     = Inl (Error ''Server error: 500'')
   \<and> ''Server error: 500'' \<noteq> ''server error: 500''
   \<and> sendMessage (Rejected \<lparr>response = Some \<lparr>status = 400,
          data = Obj [(''detail'', Str []), (''message'', Str ''bad path'')]\<rparr>,
       request = True, message = ''Request failed with status code 400''\<rparr>)
     = Inl (Error ''bad path'')
   \<and> sendMessage (Rejected \<lparr>response = Some \<lparr>status = 422,
          data = Obj [(''detail'', Obj [(''toString'', Str ''x'')])]\<rparr>,
       request = True, message = ''Request failed with status code 422''\<rparr>)
     = Inl (TypeError ''Cannot convert object to primitive value'')
   \<and> sendMessage (Rejected \<lparr>response = None, request = False, message = []\<rparr>)
     = Inl (Error ''An unexpected error occurred'')"
  by (simp add: sendMessage_def api_def response_rejected_def throw_new_Error_def or_js_def
      optfield_def decimal_500)

section \<open>The session status\<close>

lemma setAppStatus_simps:
  "appStatus (setAppStatus s st) = s"
  "statusLog (setAppStatus s st) = statusLog st @ [s]"
  "messages (setAppStatus s st) = messages st"
  "requests (setAppStatus s st) = requests st"
  by (simp_all add: setAppStatus_def)

lemma append_message_simps:
  "appStatus (append_message m st) = appStatus st"
  "statusLog (append_message m st) = statusLog st"
  "messages (append_message m st) = messages st @ [m]"
  "requests (append_message m st) = requests st"
  by (simp_all add: append_message_def)

lemma issue_simps:
  "appStatus (issue r st) = appStatus st"
  "statusLog (issue r st) = statusLog st"
  "messages (issue r st) = messages st"
  "requests (issue r st) = requests st @ [r]"
  by (simp_all add: issue_def)

lemmas effect_simps = setAppStatus_simps append_message_simps issue_simps

text \<open>
  Claim C6. Each operation sets its busy status when it starts (\<open>connecting\<close>,
  \<open>loading\<close>, \<open>processing\<close>). When its call settles, whatever the outcome and whatever
  state the application is in by then, the handler sets the status exactly once:
  \<open>connected\<close> on success; on failure \<open>disconnected\<close> for the health check and \<open>error\<close>
  for data-source registration and chat turn. No completed operation leaves a busy status.
  (A chat reply of status 2xx whose body is null counts as a failure: reading its
  \<open>message\<close> throws inside the \<open>try\<close>.)
\<close>

theorem busy_state_left_once:
  "appStatus (checkBackendHealth_begin st) = connecting
   \<and> appStatus (checkBackendHealth_end outcome s) =
        (case healthCheck outcome of Inr r \<Rightarrow> connected | Inl e \<Rightarrow> disconnected)
   \<and> statusLog (checkBackendHealth_end outcome s) =
        statusLog s @ [appStatus (checkBackendHealth_end outcome s)]
   \<and> appStatus (handleDataUpload_begin filePath st) = loading
   \<and> appStatus (handleDataUpload_end filePath outcome clk s) =
        (case uploadData outcome of Inr r \<Rightarrow> connected | Inl e \<Rightarrow> error)
   \<and> statusLog (handleDataUpload_end filePath outcome clk s) =
        statusLog s @ [appStatus (handleDataUpload_end filePath outcome clk s)]
   \<and> appStatus (handleSendMessage_begin msg clk st) = processing
   \<and> appStatus (handleSendMessage_end outcome clk s) =
        (case sendMessage outcome of
           Inr reply \<Rightarrow> if nullish reply then error else connected
         | Inl e \<Rightarrow> error)
   \<and> statusLog (handleSendMessage_end outcome clk s) =
        statusLog s @ [appStatus (handleSendMessage_end outcome clk s)]
   \<and> statusLog (checkBackendHealth_end outcome (checkBackendHealth_begin st)) =
        statusLog st @ [connecting, case healthCheck outcome of Inr r \<Rightarrow> connected | Inl e \<Rightarrow> disconnected]
   \<and> statusLog (handleDataUpload_end filePath outcome clk (handleDataUpload_begin filePath st)) =
        statusLog st @ [loading, case uploadData outcome of Inr r \<Rightarrow> connected | Inl e \<Rightarrow> error]
   \<and> statusLog (handleSendMessage_end outcome clk (handleSendMessage_begin msg clk0 st)) =
        statusLog st @
          [processing,
           case sendMessage outcome of
             Inr reply \<Rightarrow> if nullish reply then error else connected
           | Inl e \<Rightarrow> error]
   \<and> \<not> busy (appStatus (checkBackendHealth_end outcome s))
   \<and> \<not> busy (appStatus (handleDataUpload_end filePath outcome clk s))
   \<and> \<not> busy (appStatus (handleSendMessage_end outcome clk s))"
  by (simp add: checkBackendHealth_begin_def checkBackendHealth_end_def
      handleDataUpload_begin_def handleDataUpload_end_def
      handleSendMessage_begin_def handleSendMessage_end_def handleSendMessage_catch_def
      effect_simps busy_def field_def split: sum.splits)


text \<open>
  C6 on the fresh application: a health check that cannot connect, a registration that
  succeeds, and a chat turn answered with status 500.
\<close>

theorem busy_state_left_once_witness:
  "statusLog (checkBackendHealth_end
       (Rejected \<lparr>response = None, request = True, message = ''Network Error''\<rparr>)
       (checkBackendHealth_begin (initial ''2023-11-14T22:13:00.000Z'')))
     = [connecting, disconnected]
   \<and> statusLog (handleDataUpload_end ''/data/campaigns.csv''
       (Fulfilled \<lparr>status = 200, data = Obj [(''status'', Str ''ok'')]\<rparr>)
       \<lparr>now = 1700000000500, iso = ''2023-11-14T22:13:20.500Z''\<rparr>
       (handleDataUpload_begin ''/data/campaigns.csv'' (initial ''2023-11-14T22:13:00.000Z'')))
     = [loading, connected]
   \<and> statusLog (handleSendMessage_end
       (Rejected \<lparr>response = Some \<lparr>status = 500, data = Obj []\<rparr>, request = True,
                  message = ''Request failed with status code 500''\<rparr>)
       \<lparr>now = 1700000000500, iso = ''2023-11-14T22:13:20.500Z''\<rparr>
       (handleSendMessage_begin (Str ''hello'')
          \<lparr>now = 1700000000000, iso = ''2023-11-14T22:13:20.000Z''\<rparr>
          (initial ''2023-11-14T22:13:00.000Z'')))
     = [processing, error]"
  using
    busy_state_left_once [of "initial ''2023-11-14T22:13:00.000Z''"
      "Rejected \<lparr>response = None, request = True, message = ''Network Error''\<rparr>"
      "initial ''2023-11-14T22:13:00.000Z''" "[]" "\<lparr>now = 0, iso = []\<rparr>" Undefined
      "\<lparr>now = 0, iso = []\<rparr>"]
    busy_state_left_once [of "initial ''2023-11-14T22:13:00.000Z''"
      "Fulfilled \<lparr>status = 200, data = Obj [(''status'', Str ''ok'')]\<rparr>"
      "initial ''2023-11-14T22:13:00.000Z''" "''/data/campaigns.csv''"
      "\<lparr>now = 1700000000500, iso = ''2023-11-14T22:13:20.500Z''\<rparr>" Undefined
      "\<lparr>now = 0, iso = []\<rparr>"]
    busy_state_left_once [of "initial ''2023-11-14T22:13:00.000Z''"
      "Rejected \<lparr>response = Some \<lparr>status = 500, data = Obj []\<rparr>, request = True,
                  message = ''Request failed with status code 500''\<rparr>"
      "initial ''2023-11-14T22:13:00.000Z''" "[]"
      "\<lparr>now = 1700000000500, iso = ''2023-11-14T22:13:20.500Z''\<rparr>" "Str ''hello''"
      "\<lparr>now = 1700000000000, iso = ''2023-11-14T22:13:20.000Z''\<rparr>"]
  by (simp add: initial_def healthCheck_def uploadData_def sendMessage_def api_def)

section \<open>Submitting a chat turn\<close>

text \<open>
  Claim C4, as the code has it. While the status is \<open>processing\<close>, a submission of the
  chat form is rejected: nothing changes and no chat request is issued. In every other
  status, \<open>loading\<close> included, a submission whose text is not blank is accepted: the chat
  request is issued with the trimmed text and the status becomes \<open>processing\<close>. A blank
  text is never submitted.
\<close>

theorem submit_rejected_while_processing:
  "(appStatus st = processing \<longrightarrow> submit_begin inputValue clk st = st)
   \<and> (appStatus st \<noteq> processing \<and> trim inputValue \<noteq> [] \<longrightarrow>
        requests (submit_begin inputValue clk st) =
          requests st @ [POST ''/chat'' (Obj [(''message'', Str (trim inputValue))])]
        \<and> appStatus (submit_begin inputValue clk st) = processing)
   \<and> (trim inputValue = [] \<longrightarrow> submit_begin inputValue clk st = st)"
  by (simp add: submit_begin_def handleSubmit_def isLoading_def handleSendMessage_begin_def
      sendMessage_request_def effect_simps)

lemma trim_hello: "trim '' hello '' = ''hello''"
  by (simp add: trim_def whitespace_def)

text \<open>
  C4 at two states: with a chat turn in flight the second submission issues nothing; on
  the fresh application the text is sent trimmed.
\<close>

theorem submit_rejected_while_processing_witness:
  "appStatus (handleSendMessage_begin (Str ''first'')
        \<lparr>now = 1700000000000, iso = ''2023-11-14T22:13:20.000Z''\<rparr>
        (initial ''2023-11-14T22:13:00.000Z'')) = processing
   \<and> requests (submit_begin '' hello ''
        \<lparr>now = 1700000000100, iso = ''2023-11-14T22:13:20.100Z''\<rparr>
        (handleSendMessage_begin (Str ''first'')
           \<lparr>now = 1700000000000, iso = ''2023-11-14T22:13:20.000Z''\<rparr>
           (initial ''2023-11-14T22:13:00.000Z'')))
     = [POST ''/chat'' (Obj [(''message'', Str ''first'')])]
   \<and> appStatus (initial ''2023-11-14T22:13:00.000Z'') \<noteq> processing
   \<and> trim '' hello '' \<noteq> []
   \<and> requests (submit_begin '' hello ''
        \<lparr>now = 1700000000100, iso = ''2023-11-14T22:13:20.100Z''\<rparr>
        (initial ''2023-11-14T22:13:00.000Z''))
     = [POST ''/chat'' (Obj [(''message'', Str ''hello'')])]"
  using
    submit_rejected_while_processing [of
      "handleSendMessage_begin (Str ''first'')
           \<lparr>now = 1700000000000, iso = ''2023-11-14T22:13:20.000Z''\<rparr>
           (initial ''2023-11-14T22:13:00.000Z'')"
      "'' hello ''" "\<lparr>now = 1700000000100, iso = ''2023-11-14T22:13:20.100Z''\<rparr>"]
    submit_rejected_while_processing [of "initial ''2023-11-14T22:13:00.000Z''"
      "'' hello ''" "\<lparr>now = 1700000000100, iso = ''2023-11-14T22:13:20.100Z''\<rparr>"]
  by (simp add: trim_hello handleSendMessage_begin_def sendMessage_request_def effect_simps
      initial_def)

text \<open>
  C4 as stated fails for \<open>loading\<close>: with a data-source registration in flight, a
  submission of the form is accepted and the chat request is issued.
\<close>

theorem submit_while_loading_counterexample:
  "appStatus (handleDataUpload_begin ''/data/campaigns.csv'' (initial ''2023-11-14T22:13:00.000Z''))
     = loading
   \<and> requests (submit_begin '' hello ''
        \<lparr>now = 1700000000100, iso = ''2023-11-14T22:13:20.100Z''\<rparr>
        (handleDataUpload_begin ''/data/campaigns.csv'' (initial ''2023-11-14T22:13:00.000Z'')))
     = [POST ''/upload-data'' (Obj [(''file_path'', Str ''/data/campaigns.csv'')]),
        POST ''/chat'' (Obj [(''message'', Str ''hello'')])]"
  by (simp add: submit_begin_def handleSubmit_def isLoading_def handleSendMessage_begin_def
      handleDataUpload_begin_def sendMessage_request_def uploadData_request_def effect_simps
      initial_def trim_hello)

section \<open>The conversation log\<close>

lemma step_appends:
  "\<exists>new. messages (step e st) = messages st @ new \<and> length new \<le> 1 \<and>
     (\<forall>m\<in>set new. \<exists>r. readings [e] = [r] \<and> (id_m m = r \<or> id_m m = r + 1))"
  by (cases e)
     (auto simp: checkBackendHealth_begin_def checkBackendHealth_end_def
        handleDataUpload_begin_def handleDataUpload_end_def handleSendMessage_begin_def
        handleSendMessage_end_def handleSendMessage_catch_def handleQuickAction_begin_def
        submit_begin_def effect_simps split: sum.splits option.splits)

lemma readings_Cons: "readings (e # es) = readings [e] @ readings es"
  by (cases e) simp_all

lemma run_prefix: "prefix (messages st) (messages (run es st))"
proof (induction es arbitrary: st)
  case Nil
  show ?case by simp
next
  case (Cons e es)
  obtain new where "messages (step e st) = messages st @ new"
    using step_appends [of e st] by blast
  then have "prefix (messages st) (messages (step e st))" by simp
  also have "prefix (messages (step e st)) (messages (run es (step e st)))" by (rule Cons.IH)
  finally show ?case by simp
qed

lemma run_distinct:
  assumes "distinct (map id_m (messages st))"
    and "\<forall>m\<in>set (messages st). id_m m \<le> b"
    and "\<forall>r\<in>set (readings es). b < r"
    and "sorted_wrt (\<lambda>x y. x + 1 < y) (readings es)"
  shows "distinct (map id_m (messages (run es st)))"
  using assms
proof (induction es arbitrary: st b)
  case Nil
  then show ?case by simp
next
  case (Cons e es)
  obtain new where new: "messages (step e st) = messages st @ new" "length new \<le> 1"
    "\<forall>m\<in>set new. \<exists>r. readings [e] = [r] \<and> (id_m m = r \<or> id_m m = r + 1)"
    using step_appends [of e st] by blast
  show ?case
  proof (cases new)
    case Nil
    with new have same: "messages (step e st) = messages st" by simp
    have "distinct (map id_m (messages (run es (step e st))))"
    proof (rule Cons.IH [of _ b])
      show "distinct (map id_m (messages (step e st)))" using same Cons.prems(1) by simp
      show "\<forall>m\<in>set (messages (step e st)). id_m m \<le> b" using same Cons.prems(2) by simp
      show "\<forall>r\<in>set (readings es). b < r"
        using Cons.prems(3) readings_Cons [of e es] by simp
      show "sorted_wrt (\<lambda>x y. x + 1 < y) (readings es)"
        using Cons.prems(4) readings_Cons [of e es] by (simp add: sorted_wrt_append)
    qed
    then show ?thesis by simp
  next
    case (Cons m ms)
    with new(2) have n: "new = [m]" by simp
    with new(3) obtain r where r: "readings [e] = [r]" "id_m m = r \<or> id_m m = r + 1" by auto
    have re: "readings (e # es) = r # readings es" using readings_Cons [of e es] r by simp
    have br: "b < r" using Cons.prems(3) re by simp
    have "distinct (map id_m (messages (run es (step e st))))"
    proof (rule Cons.IH [of _ "r + 1"])
      show "distinct (map id_m (messages (step e st)))"
        using new(1) n Cons.prems(1,2) r(2) br by auto
      show "\<forall>m\<in>set (messages (step e st)). id_m m \<le> r + 1"
        using new(1) n Cons.prems(2) r(2) br by auto
      show "\<forall>x\<in>set (readings es). r + 1 < x"
        using Cons.prems(4) re by simp
      show "sorted_wrt (\<lambda>x y. x + 1 < y) (readings es)"
        using Cons.prems(4) re by simp
    qed
    then show ?thesis by simp
  qed
qed


text \<open>
  Claim C5, as the code has it. An append adds exactly one message and never fails (no
  duplicate is looked for); every step of the application leaves the log as it is or
  appends one message, so the log of a run extends the log it started from. Ids come
  from the clock (\<open>Date.now()\<close>, plus one for a reply), so they are pairwise distinct
  provided the readings a run takes are greater than 2 and each more than one
  millisecond after the one before.
\<close>

theorem log_grows_by_one_ids_distinct:
  "length (messages (append_message m st)) = length (messages st) + 1
   \<and> (messages (step e st) = messages st \<or> (\<exists>m'. messages (step e st) = messages st @ [m']))
   \<and> prefix (messages st) (messages (run es st))
   \<and> (sorted_wrt (\<lambda>x y. x + 1 < y) (1 # readings es) \<longrightarrow>
        distinct (map id_m (messages (run es (initial ts)))))"
proof (intro conjI impI)
  show "length (messages (append_message m st)) = length (messages st) + 1"
    by (simp add: append_message_def)
next
  obtain new where new: "messages (step e st) = messages st @ new" "length new \<le> 1"
    using step_appends [of e st] by blast
  show "messages (step e st) = messages st \<or> (\<exists>m'. messages (step e st) = messages st @ [m'])"
  proof (cases new)
    case Nil
    with new show ?thesis by simp
  next
    case (Cons a as)
    with new show ?thesis by simp
  qed
next
  show "prefix (messages st) (messages (run es st))" by (rule run_prefix)
next
  assume a: "sorted_wrt (\<lambda>x y. x + 1 < y) (1 # readings es)"
  show "distinct (map id_m (messages (run es (initial ts))))"
  proof (rule run_distinct [of _ 1])
    show "distinct (map id_m (messages (initial ts)))" by (simp add: initial_def)
    show "\<forall>m\<in>set (messages (initial ts)). id_m m \<le> 1" by (simp add: initial_def)
    show "\<forall>r\<in>set (readings es). 1 < r" using a by auto
    show "sorted_wrt (\<lambda>x y. x + 1 < y) (readings es)" using a by simp
  qed
qed

text \<open>C5 on a run that registers a data source and completes one chat turn.\<close>

theorem log_grows_by_one_ids_distinct_witness:
  "sorted_wrt (\<lambda>x y. x + 1 < y)
     (1 # readings
        [UploadEnd ''/data/campaigns.csv'' (Fulfilled \<lparr>status = 200, data = Obj []\<rparr>)
           \<lparr>now = 1700000000000, iso = ''2023-11-14T22:13:20.000Z''\<rparr>,
         SendBegin (Str ''hello'') \<lparr>now = 1700000005000, iso = ''2023-11-14T22:13:25.000Z''\<rparr>,
         SendEnd (Fulfilled \<lparr>status = 200, data = Obj [(''message'', Str ''hi'')]\<rparr>)
           \<lparr>now = 1700000005400, iso = ''2023-11-14T22:13:25.400Z''\<rparr>])
   \<and> map id_m (messages (run
        [UploadEnd ''/data/campaigns.csv'' (Fulfilled \<lparr>status = 200, data = Obj []\<rparr>)
           \<lparr>now = 1700000000000, iso = ''2023-11-14T22:13:20.000Z''\<rparr>,
         SendBegin (Str ''hello'') \<lparr>now = 1700000005000, iso = ''2023-11-14T22:13:25.000Z''\<rparr>,
         SendEnd (Fulfilled \<lparr>status = 200, data = Obj [(''message'', Str ''hi'')]\<rparr>)
           \<lparr>now = 1700000005400, iso = ''2023-11-14T22:13:25.400Z''\<rparr>]
        (initial ''2023-11-14T22:13:00.000Z'')))
     = [1, 1700000000000, 1700000005000, 1700000005401]
   \<and> distinct (map id_m (messages (run
        [UploadEnd ''/data/campaigns.csv'' (Fulfilled \<lparr>status = 200, data = Obj []\<rparr>)
           \<lparr>now = 1700000000000, iso = ''2023-11-14T22:13:20.000Z''\<rparr>,
         SendBegin (Str ''hello'') \<lparr>now = 1700000005000, iso = ''2023-11-14T22:13:25.000Z''\<rparr>,
         SendEnd (Fulfilled \<lparr>status = 200, data = Obj [(''message'', Str ''hi'')]\<rparr>)
           \<lparr>now = 1700000005400, iso = ''2023-11-14T22:13:25.400Z''\<rparr>]
        (initial ''2023-11-14T22:13:00.000Z''))))"
proof -
  let ?es = "[UploadEnd ''/data/campaigns.csv'' (Fulfilled \<lparr>status = 200, data = Obj []\<rparr>)
           \<lparr>now = 1700000000000, iso = ''2023-11-14T22:13:20.000Z''\<rparr>,
         SendBegin (Str ''hello'') \<lparr>now = 1700000005000, iso = ''2023-11-14T22:13:25.000Z''\<rparr>,
         SendEnd (Fulfilled \<lparr>status = 200, data = Obj [(''message'', Str ''hi'')]\<rparr>)
           \<lparr>now = 1700000005400, iso = ''2023-11-14T22:13:25.400Z''\<rparr>]"
  have h: "sorted_wrt (\<lambda>x y. x + 1 < y) (1 # readings ?es)" by simp
  have ids: "map id_m (messages (run ?es (initial ''2023-11-14T22:13:00.000Z'')))
      = [1, 1700000000000, 1700000005000, 1700000005401]"
    by (simp add: initial_def handleDataUpload_end_def handleSendMessage_begin_def
        handleSendMessage_end_def uploadData_def sendMessage_def api_def field_def effect_simps)
  show ?thesis
    using h ids log_grows_by_one_ids_distinct [of undefined "initial ''2023-11-14T22:13:00.000Z''"
        HealthBegin ?es "''2023-11-14T22:13:00.000Z''"]
    by simp
qed

text \<open>
  C5 as stated fails: a reply handled at clock reading \<open>t\<close> gets the id \<open>t + 1\<close>, and so
  does a user message created one millisecond later.
\<close>

theorem message_ids_collide_counterexample:
  "map id_m (messages (run
        [SendBegin (Str ''hello'') \<lparr>now = 1700000005000, iso = ''2023-11-14T22:13:25.000Z''\<rparr>,
         SendEnd (Fulfilled \<lparr>status = 200, data = Obj [(''message'', Str ''hi'')]\<rparr>)
           \<lparr>now = 1700000005400, iso = ''2023-11-14T22:13:25.400Z''\<rparr>,
         SendBegin (Str ''again'') \<lparr>now = 1700000005401, iso = ''2023-11-14T22:13:25.401Z''\<rparr>]
        (initial ''2023-11-14T22:13:00.000Z'')))
     = [1, 1700000005000, 1700000005401, 1700000005401]
   \<and> \<not> distinct (map id_m (messages (run
        [SendBegin (Str ''hello'') \<lparr>now = 1700000005000, iso = ''2023-11-14T22:13:25.000Z''\<rparr>,
         SendEnd (Fulfilled \<lparr>status = 200, data = Obj [(''message'', Str ''hi'')]\<rparr>)
           \<lparr>now = 1700000005400, iso = ''2023-11-14T22:13:25.400Z''\<rparr>,
         SendBegin (Str ''again'') \<lparr>now = 1700000005401, iso = ''2023-11-14T22:13:25.401Z''\<rparr>]
        (initial ''2023-11-14T22:13:00.000Z''))))"
proof -
  have ids: "map id_m (messages (run
        [SendBegin (Str ''hello'') \<lparr>now = 1700000005000, iso = ''2023-11-14T22:13:25.000Z''\<rparr>,
         SendEnd (Fulfilled \<lparr>status = 200, data = Obj [(''message'', Str ''hi'')]\<rparr>)
           \<lparr>now = 1700000005400, iso = ''2023-11-14T22:13:25.400Z''\<rparr>,
         SendBegin (Str ''again'') \<lparr>now = 1700000005401, iso = ''2023-11-14T22:13:25.401Z''\<rparr>]
        (initial ''2023-11-14T22:13:00.000Z'')))
     = [1, 1700000005000, 1700000005401, 1700000005401]"
    by (simp add: initial_def handleSendMessage_begin_def
        handleSendMessage_end_def sendMessage_def api_def field_def effect_simps)
  show ?thesis unfolding ids by simp
qed

section \<open>Quick actions and artifacts\<close>

text \<open>
  What holds of the dispatcher: an identifier of the mapping gives its prompt, and an
  identifier that is neither in the mapping nor an inherited property name is passed on
  as it is.
\<close>

lemma quickActionMessage_mapped:
  "map_of actionMap a = Some prompt \<Longrightarrow> quickActionMessage (Str a) = Inr prompt"
  by (auto simp: quickActionMessage_def lookup_literal_def or_js_def actionMap_def
      split: if_splits)

lemma quickActionMessage_passes:
  "a \<notin> fst ` set actionMap \<Longrightarrow> a \<notin> set Object_prototype \<Longrightarrow>
   quickActionMessage (Str a) = Inr (Str a)"
  by (simp add: quickActionMessage_def lookup_literal_def or_js_def map_of_eq_None_iff [THEN iffD2])

text \<open>
  Claim C8 on the code. \<open>validate_data\<close> resolves to its prompt and \<open>unknown_xyz\<close> to
  itself, as claimed. The identifier \<open>constructor\<close> is absent from the mapping, yet
  \<open>actionMap[action]\<close> finds the member every object literal inherits, which is truthy:
  the dispatcher hands on that function, not the identifier.
\<close>

theorem quickActionMessage_inherited_name:
  "quickActionMessage (Str ''validate_data'') = Inr (Str ''Please validate my data quality'')
   \<and> quickActionMessage (Str ''unknown_xyz'') = Inr (Str ''unknown_xyz'')
   \<and> map_of actionMap ''constructor'' = None
   \<and> quickActionMessage (Str ''constructor'') = Inr (Inherited ''constructor'')
   \<and> quickActionMessage (Str ''constructor'') \<noteq> Inr (Str ''constructor'')"
  by (simp add: quickActionMessage_def lookup_literal_def or_js_def actionMap_def
      Object_prototype_def)

lemma member_path: "\<not> nullish v \<Longrightarrow> k \<noteq> ''length'' \<Longrightarrow> member_js v k = path [k] v"
  using optfield_path [of k v] by (simp add: optfield_def)

lemma renderComponent_shape:
  assumes "\<not> nullish c"
  shows "renderComponent c =
     Inr (if path [''type''] c = Str ''table'' then
            Some (DataTable_el (path [''title''] c) (path [''headers''] c) (path [''rows''] c))
          else if path [''type''] c = Str ''chart'' then
            Some (DataChart_el (or_js (path [''chart_type''] c) (Str ''bar''))
                    (path [''title''] c) (path [''data''] c))
          else if path [''type''] c = Str ''button'' then
            Some (ActionButton_el (path [''text''] c) (path [''action''] c) (path [''style''] c)
                    ''medium'')
          else None)"
  using assms by (simp add: renderComponent_def field_def member_path)

lemma array_map_total:
  assumes "\<And>x. x \<in> set xs \<Longrightarrow> f x = Inr (g x)"
  shows "array_map f xs = Inr (map g xs)"
  using assms by (induction xs) simp_all

lemma array_filter_total:
  assumes "\<And>x. x \<in> set xs \<Longrightarrow> f x = Inr (Bool (P x))"
  shows "array_filter f xs = Inr (filter P xs)"
  using assms by (induction xs) simp_all

lemma inline_buttons:
  "filter is_button_element
     (map (\<lambda>c. if path [''type''] c = Str ''table'' then
            Some (DataTable_el (path [''title''] c) (path [''headers''] c) (path [''rows''] c))
          else if path [''type''] c = Str ''chart'' then
            Some (DataChart_el (or_js (path [''chart_type''] c) (Str ''bar''))
                    (path [''title''] c) (path [''data''] c))
          else if path [''type''] c = Str ''button'' then
            Some (ActionButton_el (path [''text''] c) (path [''action''] c) (path [''style''] c)
                    ''medium'')
          else None) cs)
   = map (\<lambda>c. Some (ActionButton_el (path [''text''] c) (path [''action''] c)
                      (path [''style''] c) ''medium''))
       (filter (\<lambda>c. path [''type''] c = Str ''button'') cs)"
  by (induction cs) auto

lemma get_insights_click:
  "requests (click_begin (ActionButton_el t (Str ''get_insights'') sty sz) clk st) =
     requests st @
       [POST ''/chat'' (Obj [(''message'', Str ''Please give me insights about my campaign data'')])]"
  by (simp add: handleQuickAction_begin_def handleSendMessage_begin_def effect_simps
      sendMessage_request_def quickActionMessage_def lookup_literal_def or_js_def actionMap_def)

text \<open>
  Claim C9. For a message whose status can be computed and whose components are an array
  without null entries holding at least one button, the bubble renders: one inline child
  per component, the buttons among them being exactly the message's button artifacts in
  component order; and the same buttons again, in the same order, in the strip (size
  \<open>small\<close>). A click on a button whose action is \<open>get_insights\<close>, inline or in the strip,
  issues the chat request with the text
  \<open>Please give me insights about my campaign data\<close>.
\<close>

theorem buttons_inline_and_in_strip:
  assumes "getMessageStatus m = Inr s"
    and "components m = Arr cs"
    and "\<forall>c\<in>set cs. \<not> nullish c"
    and "1 \<le> length (filter (\<lambda>c. path [''type''] c = Str ''button'') cs)"
  shows "\<exists>b. MessageBubbleComponent m = Inr b
        \<and> length (inline b) = length cs
        \<and> filter is_button_element (inline b) =
            map (\<lambda>c. Some (ActionButton_el (path [''text''] c) (path [''action''] c)
                              (path [''style''] c) ''medium''))
              (filter (\<lambda>c. path [''type''] c = Str ''button'') cs)
        \<and> strip b =
            map (\<lambda>c. ActionButton_el (path [''text''] c) (path [''action''] c)
                        (path [''style''] c) ''small'')
              (filter (\<lambda>c. path [''type''] c = Str ''button'') cs)
        \<and> length (strip b) = length (filter (\<lambda>c. path [''type''] c = Str ''button'') cs)
        \<and> length (filter is_button_element (inline b))
            = length (filter (\<lambda>c. path [''type''] c = Str ''button'') cs)
        \<and> requests (click_begin (ActionButton_el t (Str ''get_insights'') sty sz) clk st) =
            requests st @
              [POST ''/chat''
                 (Obj [(''message'', Str ''Please give me insights about my campaign data'')])]"
proof -
  let ?render = "\<lambda>c. if path [''type''] c = Str ''table'' then
            Some (DataTable_el (path [''title''] c) (path [''headers''] c) (path [''rows''] c))
          else if path [''type''] c = Str ''chart'' then
            Some (DataChart_el (or_js (path [''chart_type''] c) (Str ''bar''))
                    (path [''title''] c) (path [''data''] c))
          else if path [''type''] c = Str ''button'' then
            Some (ActionButton_el (path [''text''] c) (path [''action''] c) (path [''style''] c)
                    ''medium'')
          else None"
  let ?isb = "\<lambda>c. path [''type''] c = Str ''button''"
  from assms(4) have ne: "cs \<noteq> []" by auto
  have mp: "array_map renderComponent cs = Inr (map ?render cs)"
    using assms(3) by (intro array_map_total renderComponent_shape) simp
  have fl: "array_filter (\<lambda>c. case field c ''type'' of
                                   Inl e \<Rightarrow> Inl e
                                 | Inr t \<Rightarrow> Inr (Bool (t = Str ''button''))) cs
            = Inr (filter ?isb cs)"
  proof (rule array_filter_total)
    fix x assume "x \<in> set cs"
    with assms(3) have "\<not> nullish x" by simp
    then show "(case field x ''type'' of Inl e \<Rightarrow> Inl e
                | Inr t \<Rightarrow> Inr (Bool (t = Str ''button'')))
               = Inr (Bool (path [''type''] x = Str ''button''))"
      by (simp add: field_def member_path)
  qed
  have st: "map (\<lambda>button. ActionButton_el (member_js button ''text'')
                   (member_js button ''action'') (member_js button ''style'') ''small'')
              (filter ?isb cs)
            = map (\<lambda>c. ActionButton_el (path [''text''] c) (path [''action''] c)
                        (path [''style''] c) ''small'') (filter ?isb cs)"
    using assms(3) by (intro map_cong refl) (simp add: member_path)
  have "MessageBubbleComponent m =
          Inr \<lparr>badge = s, inline = map ?render cs,
               strip = map (\<lambda>c. ActionButton_el (path [''text''] c) (path [''action''] c)
                        (path [''style''] c) ''small'') (filter ?isb cs)\<rparr>"
    using ne by (simp add: MessageBubbleComponent_def assms(1,2) mp fl st)
  then show ?thesis
    using get_insights_click [of t sty sz clk st] by (simp add: inline_buttons)
qed


text \<open>C9 at a reply with a table and one \<open>get_insights\<close> button.\<close>

theorem buttons_inline_and_in_strip_witness:
  "getMessageStatus
      \<lparr>id_m = 1700000005401, type = ''agent'', content = Str ''Here is what I found'',
       timestamp = ''2023-11-14T22:13:25.400Z'',
       components = Arr
         [Obj [(''type'', Str ''table''), (''title'', Str ''Issues''),
               (''headers'', Arr [Str ''column'']), (''rows'', Arr [])],
          Obj [(''type'', Str ''button''), (''text'', Str ''Get Data Insights''),
               (''action'', Str ''get_insights''), (''style'', Str ''accent'')]],
       toolResults = Arr []\<rparr> = Inr (Str ''success'')
   \<and> list_all (\<lambda>c. \<not> nullish c)
         [Obj [(''type'', Str ''table''), (''title'', Str ''Issues''),
               (''headers'', Arr [Str ''column'']), (''rows'', Arr [])],
          Obj [(''type'', Str ''button''), (''text'', Str ''Get Data Insights''),
               (''action'', Str ''get_insights''), (''style'', Str ''accent'')]]
   \<and> MessageBubbleComponent
      \<lparr>id_m = 1700000005401, type = ''agent'', content = Str ''Here is what I found'',
       timestamp = ''2023-11-14T22:13:25.400Z'',
       components = Arr
         [Obj [(''type'', Str ''table''), (''title'', Str ''Issues''),
               (''headers'', Arr [Str ''column'']), (''rows'', Arr [])],
          Obj [(''type'', Str ''button''), (''text'', Str ''Get Data Insights''),
               (''action'', Str ''get_insights''), (''style'', Str ''accent'')]],
       toolResults = Arr []\<rparr>
     = Inr \<lparr>badge = Str ''success'',
            inline = [Some (DataTable_el (Str ''Issues'') (Arr [Str ''column'']) (Arr [])),
                      Some (ActionButton_el (Str ''Get Data Insights'') (Str ''get_insights'')
                              (Str ''accent'') ''medium'')],
            strip = [ActionButton_el (Str ''Get Data Insights'') (Str ''get_insights'')
                       (Str ''accent'') ''small'']\<rparr>
   \<and> requests (click_begin
         (ActionButton_el (Str ''Get Data Insights'') (Str ''get_insights'') (Str ''accent'') ''small'')
         \<lparr>now = 1700000009000, iso = ''2023-11-14T22:13:29.000Z''\<rparr>
         (initial ''2023-11-14T22:13:00.000Z''))
     = [POST ''/chat''
          (Obj [(''message'', Str ''Please give me insights about my campaign data'')])]"
proof -
  let ?cs = "[Obj [(''type'', Str ''table''), (''title'', Str ''Issues''),
               (''headers'', Arr [Str ''column'']), (''rows'', Arr [])],
          Obj [(''type'', Str ''button''), (''text'', Str ''Get Data Insights''),
               (''action'', Str ''get_insights''), (''style'', Str ''accent'')]]"
  let ?m = "\<lparr>id_m = 1700000005401, type = ''agent'', content = Str ''Here is what I found'',
       timestamp = ''2023-11-14T22:13:25.400Z'', components = Arr ?cs, toolResults = Arr []\<rparr>"
  have h1: "getMessageStatus ?m = Inr (Str ''success'')"
    by (simp add: getMessageStatus_def)
  have h2: "components ?m = Arr ?cs" by simp
  have h3: "\<forall>c\<in>set ?cs. \<not> nullish c" by simp
  have h4: "1 \<le> length (filter (\<lambda>c. path [''type''] c = Str ''button'') ?cs)" by simp
  from buttons_inline_and_in_strip [OF h1 h2 h3 h4, of "Str ''Get Data Insights''"
      "Str ''accent''" "''small''" "\<lparr>now = 1700000009000, iso = ''2023-11-14T22:13:29.000Z''\<rparr>"
      "initial ''2023-11-14T22:13:00.000Z''"]
  obtain b where b: "MessageBubbleComponent ?m = Inr b"
    and r: "requests (click_begin
         (ActionButton_el (Str ''Get Data Insights'') (Str ''get_insights'') (Str ''accent'') ''small'')
         \<lparr>now = 1700000009000, iso = ''2023-11-14T22:13:29.000Z''\<rparr>
         (initial ''2023-11-14T22:13:00.000Z''))
       = requests (initial ''2023-11-14T22:13:00.000Z'') @ [POST ''/chat''
          (Obj [(''message'', Str ''Please give me insights about my campaign data'')])]"
    by blast
  have "MessageBubbleComponent ?m
     = Inr \<lparr>badge = Str ''success'',
            inline = [Some (DataTable_el (Str ''Issues'') (Arr [Str ''column'']) (Arr [])),
                      Some (ActionButton_el (Str ''Get Data Insights'') (Str ''get_insights'')
                              (Str ''accent'') ''medium'')],
            strip = [ActionButton_el (Str ''Get Data Insights'') (Str ''get_insights'')
                       (Str ''accent'') ''small'']\<rparr>"
    by (simp add: MessageBubbleComponent_def h1 renderComponent_def field_def)
  with h1 r show ?thesis by (simp add: initial_def)
qed

lemma decimal_not_empty: "decimal n \<noteq> []"
  by (subst decimal.simps) simp

lemma decimal_zero: "decimal n = ''0'' \<longleftrightarrow> n = 0"
proof (cases "n < 10")
  case True
  then have "n \<in> {0, 1, 2, 3, 4, 5, 6, 7, 8, 9}" by auto
  then show ?thesis by (subst decimal.simps) auto
next
  case False
  then show ?thesis using decimal_not_empty [of "n div 10"] by (subst decimal.simps) simp
qed

lemma truthy_not_nullish: "truthy v \<Longrightarrow> \<not> nullish v"
  by (cases v) simp_all

lemma falsy_has_no_field: "\<not> truthy v \<Longrightarrow> path [k] v = Undefined"
  by (cases v) simp_all

lemma or_js_truthy: "truthy a \<Longrightarrow> or_js a b = a"
  by (simp add: or_js_def)

lemma DataChart_shape:
  assumes "ty \<noteq> Undefined"
  shows "DataChart ty title d =
     (if truthy (path [''x''] d) \<and> truthy (path [''y''] d)
         \<and> member_js (path [''x''] d) ''length'' \<noteq> Num ''0''
      then (if ty = Str ''line'' then Line else Bar)
             (or_js title (Str ''Data'')) (path [''x''] d) (path [''y''] d)
      else NoData (or_js title (Str ''Chart'')))"
proof (cases "truthy d")
  case True
  then have nn: "\<not> nullish d" by (rule truthy_not_nullish)
  have mx: "member_js d ''x'' = path [''x''] d" using nn by (simp add: member_path)
  have my: "member_js d ''y'' = path [''y''] d" using nn by (simp add: member_path)
  have ox: "optfield d ''x'' = path [''x''] d" by (simp add: optfield_path)
  have oy: "optfield d ''y'' = path [''y''] d" by (simp add: optfield_path)
  show ?thesis
    using True assms
    by (simp add: DataChart_def Let_def mx my ox oy or_js_truthy)
next
  case False
  then have "path [''x''] d = Undefined" by (rule falsy_has_no_field)
  with False show ?thesis by (simp add: DataChart_def Let_def)
qed

text \<open>
  Claim C10, as the code has it. A chart artifact is drawn as a chart exactly when its
  \<open>data.x\<close> and \<open>data.y\<close> are both truthy and the length of \<open>data.x\<close> is not zero; it is
  then drawn with the \<open>Line\<close> component if its \<open>chart_type\<close> is the string \<open>line\<close>, and
  with the \<open>Bar\<close> component for any other value or none. In every other case (\<open>data\<close>,
  \<open>data.x\<close> or \<open>data.y\<close> missing or falsy, or \<open>data.x\<close> of length zero) the no-data
  placeholder is shown, whatever the kind. For \<open>data.x\<close> an array, the length is not
  zero exactly when the array is not empty.
\<close>

theorem chart_kind_selects_component:
  assumes "path [''type''] c = Str ''chart''"
  shows "chart_display c =
     Some (Inr
       (if truthy (path [''data'', ''x''] c) \<and> truthy (path [''data'', ''y''] c)
           \<and> member_js (path [''data'', ''x''] c) ''length'' \<noteq> Num ''0''
        then (if path [''chart_type''] c = Str ''line'' then Line else Bar)
               (or_js (path [''title''] c) (Str ''Data''))
               (path [''data'', ''x''] c) (path [''data'', ''y''] c)
        else NoData (or_js (path [''title''] c) (Str ''Chart''))))
     \<and> (\<forall>xs. path [''data'', ''x''] c = Arr xs \<longrightarrow>
           (member_js (path [''data'', ''x''] c) ''length'' \<noteq> Num ''0'' \<longleftrightarrow> xs \<noteq> []))"
proof -
  from assms have nn: "\<not> nullish c" by (cases c) simp_all
  let ?d = "path [''data''] c"
  have x: "path [''data'', ''x''] c = path [''x''] ?d"
    using path_append [of "[''data'']" "[''x'']" c] by simp
  have y: "path [''data'', ''y''] c = path [''y''] ?d"
    using path_append [of "[''data'']" "[''y'']" c] by simp
  have k: "or_js (path [''chart_type''] c) (Str ''bar'') = Str ''line''
           \<longleftrightarrow> path [''chart_type''] c = Str ''line''"
    by (auto simp: or_js_def)
  have u: "or_js (path [''chart_type''] c) (Str ''bar'') \<noteq> Undefined"
    by (cases "path [''chart_type''] c") (simp_all add: or_js_def)
  have r: "renderComponent c =
      Inr (Some (DataChart_el (or_js (path [''chart_type''] c) (Str ''bar''))
                   (path [''title''] c) ?d))"
    using nn assms by (simp add: renderComponent_shape)
  have "chart_display c =
      Some (Inr (DataChart (or_js (path [''chart_type''] c) (Str ''bar''))
                   (path [''title''] c) ?d))"
    by (simp add: chart_display_def r)
  then have first: "chart_display c =
     Some (Inr
       (if truthy (path [''data'', ''x''] c) \<and> truthy (path [''data'', ''y''] c)
           \<and> member_js (path [''data'', ''x''] c) ''length'' \<noteq> Num ''0''
        then (if path [''chart_type''] c = Str ''line'' then Line else Bar)
               (or_js (path [''title''] c) (Str ''Data''))
               (path [''data'', ''x''] c) (path [''data'', ''y''] c)
        else NoData (or_js (path [''title''] c) (Str ''Chart''))))"
    by (simp only: DataChart_shape [OF u] k x y)
  have second: "\<forall>xs. path [''data'', ''x''] c = Arr xs \<longrightarrow>
           (member_js (path [''data'', ''x''] c) ''length'' \<noteq> Num ''0'' \<longleftrightarrow> xs \<noteq> [])"
    by (simp add: decimal_zero)
  from first second show ?thesis by (rule conjI)
qed

text \<open>
  C10 at five charts with two points: kind \<open>pie\<close>, kind absent and kind \<open>line\<close>; and at
  two charts of kind \<open>line\<close> with nothing to plot, one without \<open>data\<close> and one whose
  \<open>data.y\<close> is the number zero.
\<close>

theorem chart_kind_selects_component_witness:
  "path [''type'']
      (Obj [(''type'', Str ''chart''), (''chart_type'', Str ''pie''), (''title'', Str ''Clicks''),
            (''data'', Obj [(''x'', Arr [Str ''Mon'', Str ''Tue'']), (''y'', Arr [Num ''3'', Num ''5''])])])
     = Str ''chart''
   \<and> chart_display
      (Obj [(''type'', Str ''chart''), (''chart_type'', Str ''pie''), (''title'', Str ''Clicks''),
            (''data'', Obj [(''x'', Arr [Str ''Mon'', Str ''Tue'']), (''y'', Arr [Num ''3'', Num ''5''])])])
     = Some (Inr (Bar (Str ''Clicks'') (Arr [Str ''Mon'', Str ''Tue'']) (Arr [Num ''3'', Num ''5''])))
   \<and> chart_display
      (Obj [(''type'', Str ''chart''), (''title'', Str ''Clicks''),
            (''data'', Obj [(''x'', Arr [Str ''Mon'', Str ''Tue'']), (''y'', Arr [Num ''3'', Num ''5''])])])
     = Some (Inr (Bar (Str ''Clicks'') (Arr [Str ''Mon'', Str ''Tue'']) (Arr [Num ''3'', Num ''5''])))
   \<and> chart_display
      (Obj [(''type'', Str ''chart''), (''chart_type'', Str ''line''), (''title'', Str ''Clicks''),
            (''data'', Obj [(''x'', Arr [Str ''Mon'', Str ''Tue'']), (''y'', Arr [Num ''3'', Num ''5''])])])
     = Some (Inr (Line (Str ''Clicks'') (Arr [Str ''Mon'', Str ''Tue'']) (Arr [Num ''3'', Num ''5''])))
   \<and> chart_display
      (Obj [(''type'', Str ''chart''), (''chart_type'', Str ''line''), (''title'', Str ''Clicks'')])
     = Some (Inr (NoData (Str ''Clicks'')))
   \<and> chart_display
      (Obj [(''type'', Str ''chart''), (''chart_type'', Str ''line''),
            (''data'', Obj [(''x'', Arr [Str ''Mon'']), (''y'', Num ''0'')])])
     = Some (Inr (NoData (Str ''Chart'')))"
  using
    chart_kind_selects_component [of
      "Obj [(''type'', Str ''chart''), (''chart_type'', Str ''pie''), (''title'', Str ''Clicks''),
            (''data'', Obj [(''x'', Arr [Str ''Mon'', Str ''Tue'']), (''y'', Arr [Num ''3'', Num ''5''])])]"]
    chart_kind_selects_component [of
      "Obj [(''type'', Str ''chart''), (''title'', Str ''Clicks''),
            (''data'', Obj [(''x'', Arr [Str ''Mon'', Str ''Tue'']), (''y'', Arr [Num ''3'', Num ''5''])])]"]
    chart_kind_selects_component [of
      "Obj [(''type'', Str ''chart''), (''chart_type'', Str ''line''), (''title'', Str ''Clicks''),
            (''data'', Obj [(''x'', Arr [Str ''Mon'', Str ''Tue'']), (''y'', Arr [Num ''3'', Num ''5''])])]"]
    chart_kind_selects_component [of
      "Obj [(''type'', Str ''chart''), (''chart_type'', Str ''line''), (''title'', Str ''Clicks'')]"]
    chart_kind_selects_component [of
      "Obj [(''type'', Str ''chart''), (''chart_type'', Str ''line''),
            (''data'', Obj [(''x'', Arr [Str ''Mon'']), (''y'', Num ''0'')])]"]
  by (simp add: or_js_def)

text \<open>
  C10 as stated fails for a chart with an empty series: whatever its kind, \<open>DataChart\<close>
  shows the no-data placeholder, not a bar chart.
\<close>

theorem chart_without_data_counterexample:
  "chart_display
      (Obj [(''type'', Str ''chart''), (''chart_type'', Str ''bar''), (''title'', Str ''Clicks''),
            (''data'', Obj [(''x'', Arr []), (''y'', Arr [])])])
     = Some (Inr (NoData (Str ''Clicks'')))"
  by (simp add: chart_display_def renderComponent_def field_def DataChart_def or_js_def
      optfield_def decimal.simps)

end
